theory Spec2Isabelle
  imports Main
begin

section \<open>Python values, exceptions and built-in operations\<close>

text \<open>
  The configuration handed to the validators and to the serializer is a nest of Python
  values. A text is the list of its code points (those below 256), a dictionary is an
  association list in insertion order with text keys, integers are unbounded. Floating
  point numbers, dates and other loader-specific objects are left out of the value type.
\<close>

datatype pyval =
    PNone
  | PBool bool
  | PInt int
  | PStr string
  | PList "pyval list"
  | PDict "(string \<times> pyval) list"

text \<open>
  The text of an exception is either written by the program or supplied by the
  interpreter. The interpreter's wording is not fixed by the source, so a text ending in
  the interpreter's wording is kept apart: \<open>InterpreterMessage p\<close> stands for the text
  \<open>p\<close> followed by whatever the interpreter says about the failed built-in operation.
\<close>

datatype wording = Message string | InterpreterMessage string

datatype exn =
    WindowsEventValidationError wording
  | ValueError wording
  | TypeError
  | KeyError
  | IndexError
  | AttributeError

fun exn_str :: "exn \<Rightarrow> wording" where
  "exn_str (WindowsEventValidationError m) = m"
| "exn_str (ValueError m) = m"
| "exn_str TypeError = InterpreterMessage []"
| "exn_str KeyError = InterpreterMessage []"
| "exn_str IndexError = InterpreterMessage []"
| "exn_str AttributeError = InterpreterMessage []"

fun prefixed :: "string \<Rightarrow> wording \<Rightarrow> wording" where
  "prefixed p (Message t) = Message (p @ t)"
| "prefixed p (InterpreterMessage t) = InterpreterMessage (p @ t)"

fun and_then :: "exn + 'a \<Rightarrow> ('a \<Rightarrow> exn + 'b) \<Rightarrow> exn + 'b" where
  "and_then (Inl e) f = Inl e"
| "and_then (Inr x) f = f x"

abbreviation (input) raise_validation :: "string \<Rightarrow> exn + 'a" where
  "raise_validation t \<equiv> Inl (WindowsEventValidationError (Message t))"

subsection \<open>Characters and texts\<close>

definition squote :: char where "squote = CHR 0x27"
definition dquote :: char where "dquote = CHR 0x22"
definition backslash :: char where "backslash = CHR 0x5C"
definition newline :: char where "newline = CHR 0x0A"

definition code :: "char \<Rightarrow> nat" where
  "code c = of_char c"

definition py_isspace :: "char \<Rightarrow> bool" where
  "py_isspace c = (let n = code c in
     (9 \<le> n \<and> n \<le> 13) \<or> (28 \<le> n \<and> n \<le> 32) \<or> n = 133 \<or> n = 160)"

definition py_isprintable :: "char \<Rightarrow> bool" where
  "py_isprintable c = (let n = code c in
     (32 \<le> n \<and> n < 127) \<or> (161 \<le> n \<and> n \<noteq> 173))"

definition py_lower_char :: "char \<Rightarrow> char" where
  "py_lower_char c = (let n = code c in
     if (65 \<le> n \<and> n \<le> 90) \<or> (192 \<le> n \<and> n \<le> 222 \<and> n \<noteq> 215)
     then char_of (n + 32) else c)"

definition py_lower :: "string \<Rightarrow> string" where
  "py_lower s = map py_lower_char s"

definition py_startswith :: "string \<Rightarrow> string \<Rightarrow> bool" where
  "py_startswith s p = (take (length p) s = p)"

text \<open>\<open>p in s\<close> for two texts: \<open>p\<close> occurs in \<open>s\<close> as a contiguous piece.\<close>

fun py_substring :: "string \<Rightarrow> string \<Rightarrow> bool" where
  "py_substring p [] = (p = [])"
| "py_substring p (c # cs) = (py_startswith (c # cs) p \<or> py_substring p cs)"

text \<open>\<open>s.split()\<close>: the maximal runs of characters that are not white space.\<close>

fun tokens_from :: "string \<Rightarrow> string \<Rightarrow> string list" where
  "tokens_from cur [] = (if cur = [] then [] else [cur])"
| "tokens_from cur (c # cs) =
     (if py_isspace c
      then (if cur = [] then tokens_from [] cs else cur # tokens_from [] cs)
      else tokens_from (cur @ [c]) cs)"

definition py_split :: "string \<Rightarrow> string list" where
  "py_split s = tokens_from [] s"

text \<open>\<open>s.split(sep)\<close> for a separator of one character: empty pieces are kept.\<close>

fun pieces_from :: "char \<Rightarrow> string \<Rightarrow> string \<Rightarrow> string list" where
  "pieces_from sep cur [] = [cur]"
| "pieces_from sep cur (c # cs) =
     (if c = sep then cur # pieces_from sep [] cs else pieces_from sep (cur @ [c]) cs)"

definition py_split_on :: "char \<Rightarrow> string \<Rightarrow> string list" where
  "py_split_on sep s = pieces_from sep [] s"

fun py_join :: "string \<Rightarrow> string list \<Rightarrow> string" where
  "py_join sep [] = []"
| "py_join sep [x] = x"
| "py_join sep (x # y # ys) = x @ sep @ py_join sep (y # ys)"

subsection \<open>\<open>str\<close> and \<open>repr\<close>\<close>

definition digit_char :: "nat \<Rightarrow> char" where
  "digit_char d = char_of (48 + d)"

text \<open>The decimal digits of an integer that is not negative.\<close>

function dec_digits :: "int \<Rightarrow> string" where
  "dec_digits n =
     (if n < 10 then [digit_char (nat n)]
      else dec_digits (n div 10) @ [digit_char (nat (n mod 10))])"
  by pat_completeness auto
termination
  by (relation "measure nat") auto

declare dec_digits.simps [simp del]

definition py_str_int :: "int \<Rightarrow> string" where
  "py_str_int i = (if i < 0 then CHR ''-'' # dec_digits (- i) else dec_digits i)"

definition hex_char :: "nat \<Rightarrow> char" where
  "hex_char d = (if d < 10 then char_of (48 + d) else char_of (87 + d))"

definition repr_char :: "char \<Rightarrow> char \<Rightarrow> string" where
  "repr_char q c =
     (if c = q \<or> c = backslash then [backslash, c]
      else if code c = 9 then [backslash, CHR ''t'']
      else if code c = 10 then [backslash, CHR ''n'']
      else if code c = 13 then [backslash, CHR ''r'']
      else if py_isprintable c then [c]
      else [backslash, CHR ''x'', hex_char (code c div 16), hex_char (code c mod 16)])"

definition py_repr_str :: "string \<Rightarrow> string" where
  "py_repr_str s =
     (let q = (if squote \<in> set s \<and> dquote \<notin> set s then dquote else squote)
      in [q] @ concat (map (repr_char q) s) @ [q])"

fun py_repr :: "pyval \<Rightarrow> string"
  and py_repr_list :: "pyval list \<Rightarrow> string list"
  and py_repr_items :: "(string \<times> pyval) list \<Rightarrow> string list" where
  "py_repr PNone = ''None''"
| "py_repr (PBool b) = (if b then ''True'' else ''False'')"
| "py_repr (PInt i) = py_str_int i"
| "py_repr (PStr s) = py_repr_str s"
| "py_repr (PList xs) = ''['' @ py_join '', '' (py_repr_list xs) @ '']''"
| "py_repr (PDict d) = ''{'' @ py_join '', '' (py_repr_items d) @ ''}''"
| "py_repr_list [] = []"
| "py_repr_list (x # xs) = py_repr x # py_repr_list xs"
| "py_repr_items [] = []"
| "py_repr_items (kv # d) = (py_repr_str (fst kv) @ '': '' @ py_repr (snd kv)) # py_repr_items d"

definition py_str :: "pyval \<Rightarrow> string" where
  "py_str v = (case v of PStr s \<Rightarrow> s | _ \<Rightarrow> py_repr v)"

subsection \<open>Truth, equality with a scalar, \<open>int\<close>\<close>

definition py_truthy :: "pyval \<Rightarrow> bool" where
  "py_truthy v = (case v of
       PNone \<Rightarrow> False
     | PBool b \<Rightarrow> b
     | PInt i \<Rightarrow> i \<noteq> 0
     | PStr s \<Rightarrow> s \<noteq> []
     | PList xs \<Rightarrow> xs \<noteq> []
     | PDict d \<Rightarrow> d \<noteq> [])"

text \<open>\<open>v == n\<close> for an integer \<open>n\<close>: a boolean counts as 0 or 1.\<close>

definition py_eq_int :: "pyval \<Rightarrow> int \<Rightarrow> bool" where
  "py_eq_int v n = (case v of
       PInt i \<Rightarrow> i = n
     | PBool b \<Rightarrow> (if b then 1 else 0) = n
     | _ \<Rightarrow> False)"

definition py_eq_str :: "pyval \<Rightarrow> string \<Rightarrow> bool" where
  "py_eq_str v s = (v = PStr s)"

definition digit_value :: "char \<Rightarrow> nat option" where
  "digit_value c = (let n = code c in
     if 48 \<le> n \<and> n \<le> 57 then Some (n - 48)
     else if 97 \<le> n \<and> n \<le> 122 then Some (n - 87)
     else if 65 \<le> n \<and> n \<le> 90 then Some (n - 55)
     else None)"

definition digit_in :: "nat \<Rightarrow> char \<Rightarrow> nat option" where
  "digit_in base c = (case digit_value c of
       None \<Rightarrow> None
     | Some v \<Rightarrow> (if v < base then Some v else None))"

text \<open>
  The digits of an integer literal: at least one digit, single underscores allowed
  between two digits only.
\<close>

fun digits_acc :: "nat \<Rightarrow> int \<Rightarrow> string \<Rightarrow> int option" where
  "digits_acc base acc [] = Some acc"
| "digits_acc base acc (c # cs) =
     (if c = CHR ''_''
      then (case cs of
              [] \<Rightarrow> None
            | d # ds \<Rightarrow> (case digit_in base d of
                          None \<Rightarrow> None
                        | Some v \<Rightarrow> digits_acc base (acc * int base + int v) ds))
      else (case digit_in base c of
              None \<Rightarrow> None
            | Some v \<Rightarrow> digits_acc base (acc * int base + int v) cs))"

definition parse_digits :: "nat \<Rightarrow> string \<Rightarrow> int option" where
  "parse_digits base s = (case s of
       [] \<Rightarrow> None
     | c # cs \<Rightarrow> (case digit_in base c of
                   None \<Rightarrow> None
                 | Some v \<Rightarrow> digits_acc base (int v) cs))"

text \<open>
  The white space that \<open>int\<close> skips around an integer literal. It is not the set of
  \<open>split\<close>: the separators 28 to 31 are not skipped.
\<close>

definition int_isspace :: "char \<Rightarrow> bool" where
  "int_isspace c = (let n = code c in
     (9 \<le> n \<and> n \<le> 13) \<or> n = 32 \<or> n = 133 \<or> n = 160)"

definition py_strip :: "string \<Rightarrow> string" where
  "py_strip s = rev (dropWhile int_isspace (rev (dropWhile int_isspace s)))"

text \<open>
  After the sign, base 16 admits the prefix \<open>0x\<close> or \<open>0X\<close>, itself followed by at most
  one underscore.
\<close>

definition skip_hex_prefix :: "string \<Rightarrow> string" where
  "skip_hex_prefix s = (case s of
       c0 # c1 # rest \<Rightarrow>
         (if c0 = CHR ''0'' \<and> (c1 = CHR ''x'' \<or> c1 = CHR ''X'')
          then (case rest of u # rest' \<Rightarrow> (if u = CHR ''_'' then rest' else rest) | [] \<Rightarrow> rest)
          else s)
     | _ \<Rightarrow> s)"

text \<open>
  \<open>int(s, base)\<close> for a text, for the bases 10 and 16 the program uses. The interpreter's
  configurable limit on the number of decimal digits is not modelled.
\<close>

definition py_int_text :: "string \<Rightarrow> nat \<Rightarrow> exn + int" where
  "py_int_text s base =
     (let t = py_strip s;
          neg = (case t of c # _ \<Rightarrow> c = CHR ''-'' | [] \<Rightarrow> False);
          u = (case t of c # r \<Rightarrow> (if c = CHR ''-'' \<or> c = CHR ''+'' then r else t) | [] \<Rightarrow> t);
          d = (if base = 16 then skip_hex_prefix u else u)
      in case parse_digits base d of
           None \<Rightarrow> Inl (ValueError (InterpreterMessage []))
         | Some n \<Rightarrow> Inr (if neg then - n else n))"

text \<open>\<open>int(v)\<close>.\<close>

definition py_int :: "pyval \<Rightarrow> exn + int" where
  "py_int v = (case v of
       PInt i \<Rightarrow> Inr i
     | PBool b \<Rightarrow> Inr (if b then 1 else 0)
     | PStr s \<Rightarrow> py_int_text s 10
     | _ \<Rightarrow> Inl TypeError)"

subsection \<open>Membership, subscription and \<open>get\<close> with a text key\<close>

text \<open>\<open>k in x\<close> for a text \<open>k\<close>.\<close>

definition py_contains :: "pyval \<Rightarrow> string \<Rightarrow> exn + bool" where
  "py_contains x k = (case x of
       PDict d \<Rightarrow> Inr (k \<in> set (map fst d))
     | PStr s \<Rightarrow> Inr (py_substring k s)
     | PList xs \<Rightarrow> Inr (PStr k \<in> set xs)
     | _ \<Rightarrow> Inl TypeError)"

text \<open>\<open>x[k]\<close> for a text \<open>k\<close>.\<close>

definition py_getitem :: "pyval \<Rightarrow> string \<Rightarrow> exn + pyval" where
  "py_getitem x k = (case x of
       PDict d \<Rightarrow> (case map_of d k of None \<Rightarrow> Inl KeyError | Some v \<Rightarrow> Inr v)
     | _ \<Rightarrow> Inl TypeError)"

text \<open>\<open>x.get(k, default)\<close> for a text \<open>k\<close>.\<close>

definition py_get :: "pyval \<Rightarrow> string \<Rightarrow> pyval \<Rightarrow> exn + pyval" where
  "py_get x k dflt = (case x of
       PDict d \<Rightarrow> (case map_of d k of None \<Rightarrow> Inr dflt | Some v \<Rightarrow> Inr v)
     | _ \<Rightarrow> Inl AttributeError)"

text \<open>The fields of a list of required names that are not in \<open>x\<close>, in order.\<close>

fun missing_in :: "pyval \<Rightarrow> string list \<Rightarrow> exn + string list" where
  "missing_in x [] = Inr []"
| "missing_in x (f # fs) =
     and_then (py_contains x f) (\<lambda>here.
     and_then (missing_in x fs) (\<lambda>rest.
     Inr (if here then rest else f # rest)))"

section \<open>Regular expressions of the validators\<close>

text \<open>
  The patterns of \<^verbatim>\<open>validators.py\<close> use anchors, single characters, character
  classes and bounded repetition of a character or class. \<open>re.match\<close> tries the pattern
  at the start of the text; \<open>$\<close> holds at the end of the text and also just before a
  line break that ends the text.
\<close>

datatype re_atom = Chr char | Cls "(char \<times> char) list"

datatype re_item = Bol | Eol | One re_atom | Rep re_atom nat nat

fun atom_ok :: "re_atom \<Rightarrow> char \<Rightarrow> bool" where
  "atom_ok (Chr c) x = (x = c)"
| "atom_ok (Cls rs) x = list_ex (\<lambda>r. code (fst r) \<le> code x \<and> code x \<le> code (snd r)) rs"

text \<open>
  The states an item leads to from a state: a state is the rest of the text together
  with the flag that no character has been consumed yet. A repetition offers the longest
  run first, then the shorter ones.
\<close>

fun item_step :: "re_item \<Rightarrow> bool \<times> string \<Rightarrow> (bool \<times> string) list" where
  "item_step Bol (start, s) = (if start then [(start, s)] else [])"
| "item_step Eol (start, s) = (if s = [] \<or> s = [newline] then [(start, s)] else [])"
| "item_step (One a) (start, s) =
     (case s of [] \<Rightarrow> [] | c # t \<Rightarrow> (if atom_ok a c then [(False, t)] else []))"
| "item_step (Rep a lo hi) (start, s) =
     (let run = length (takeWhile (atom_ok a) s);
          most = min hi run
      in if most < lo then []
         else map (\<lambda>k. (start \<and> k = 0, drop k s)) (rev [lo ..< Suc most]))"

fun match_items :: "re_item list \<Rightarrow> bool \<times> string \<Rightarrow> bool" where
  "match_items [] st = True"
| "match_items (it # its) st = list_ex (match_items its) (item_step it st)"

definition re_match :: "re_item list \<Rightarrow> pyval \<Rightarrow> exn + bool" where
  "re_match pattern v = (case v of
       PStr s \<Rightarrow> Inr (match_items pattern (True, s))
     | _ \<Rightarrow> Inl TypeError)"

definition hex_class :: re_atom where
  "hex_class = Cls [(CHR ''0'', CHR ''9''), (CHR ''a'', CHR ''f''), (CHR ''A'', CHR ''F'')]"

definition hex_class_upper_first :: re_atom where
  "hex_class_upper_first = Cls [(CHR ''0'', CHR ''9''), (CHR ''A'', CHR ''F''), (CHR ''a'', CHR ''f'')]"

definition GUID_PATTERN :: "re_item list" where
  "GUID_PATTERN =
     [Bol, One (Chr (CHR ''{'')),
      Rep hex_class 8 8, One (Chr (CHR ''-'')),
      Rep hex_class 4 4, One (Chr (CHR ''-'')),
      Rep hex_class 4 4, One (Chr (CHR ''-'')),
      Rep hex_class 4 4, One (Chr (CHR ''-'')),
      Rep hex_class 12 12, One (Chr (CHR ''}'')), Eol]"

definition HEX_INT64_PATTERN :: "re_item list" where
  "HEX_INT64_PATTERN =
     [Bol, One (Chr (CHR ''0'')), One (Cls [(CHR ''x'', CHR ''x''), (CHR ''X'', CHR ''X'')]),
      Rep hex_class_upper_first 1 16, Eol]"

definition CULTURE_PATTERN :: "re_item list" where
  "CULTURE_PATTERN =
     [Bol, Rep (Cls [(CHR ''a'', CHR ''z'')]) 2 2, One (Chr (CHR ''-'')),
      Rep (Cls [(CHR ''A'', CHR ''Z'')]) 2 2, Eol]"

section \<open>The validators\<close>

definition validate_guid :: "pyval \<Rightarrow> exn + bool" where
  "validate_guid guid = re_match GUID_PATTERN guid"

definition validate_hex_value :: "pyval \<Rightarrow> re_item list \<Rightarrow> exn + bool" where
  "validate_hex_value hex_str pattern = re_match pattern hex_str"

definition validate_provider :: "pyval \<Rightarrow> exn + unit" where
  "validate_provider provider =
     and_then (py_get provider ''Name'' PNone) (\<lambda>name.
     and_then (py_get provider ''Guid'' PNone) (\<lambda>guid.
     if \<not> py_truthy name \<and> \<not> py_truthy guid
     then raise_validation ''Provider must have either Name or Guid attribute''
     else if py_truthy guid
     then and_then (validate_guid guid) (\<lambda>ok.
            if \<not> ok
            then raise_validation (''Invalid Provider GUID format: '' @ py_str guid)
            else Inr ())
     else Inr ()))"

definition check_activity_guid :: "pyval \<Rightarrow> string \<Rightarrow> exn + unit" where
  "check_activity_guid correlation field =
     and_then (py_get correlation field PNone) (\<lambda>guid.
     if py_truthy guid
     then and_then (validate_guid guid) (\<lambda>ok.
            if \<not> ok
            then raise_validation (''Invalid '' @ field @ '' GUID format: '' @ py_str guid)
            else Inr ())
     else Inr ())"

definition validate_correlation :: "pyval \<Rightarrow> exn + unit" where
  "validate_correlation correlation =
     and_then (check_activity_guid correlation ''ActivityID'') (\<lambda>_.
     check_activity_guid correlation ''RelatedActivityID'')"

text \<open>One round of the loop over \<open>ProcessID\<close>, \<open>ThreadID\<close>, \<open>SessionID\<close>.\<close>

definition check_unsigned :: "pyval \<Rightarrow> string \<Rightarrow> exn + unit" where
  "check_unsigned execution field =
     and_then (py_contains execution field) (\<lambda>here.
     if here
     then and_then (py_getitem execution field) (\<lambda>v.
            case py_int v of
              Inr value \<Rightarrow>
                (if value < 0
                 then raise_validation (field @ '' must be non-negative, got '' @ py_str_int value)
                 else Inr ())
            | Inl (ValueError _) \<Rightarrow>
                raise_validation (''Invalid '' @ field @ '' value: '' @ py_str v)
            | Inl e \<Rightarrow> Inl e)
     else Inr ())"

definition validate_execution :: "pyval \<Rightarrow> exn + unit" where
  "validate_execution execution =
     and_then (missing_in execution [''ProcessID'', ''ThreadID'']) (\<lambda>missing.
     if missing \<noteq> []
     then raise_validation (''Missing required Execution attributes: '' @ py_join '', '' missing)
     else
     and_then (check_unsigned execution ''ProcessID'') (\<lambda>_.
     and_then (check_unsigned execution ''ThreadID'') (\<lambda>_.
     check_unsigned execution ''SessionID'')))"

text \<open>
  A handler for \<open>except (ValueError, TypeError) as e\<close> that raises a validation error
  whose text is \<open>p\<close> followed by \<open>str(e)\<close>.
\<close>

definition rewrap_value_type :: "string \<Rightarrow> exn + 'a \<Rightarrow> exn + 'a" where
  "rewrap_value_type p r = (case r of
       Inl (ValueError m) \<Rightarrow> Inl (WindowsEventValidationError (prefixed p m))
     | Inl TypeError \<Rightarrow> Inl (WindowsEventValidationError (prefixed p (exn_str TypeError)))
     | _ \<Rightarrow> r)"

text \<open>The \<open>try\<close> block on \<open>EventID\<close> of \<open>validate_system_properties\<close>, with its handler.\<close>

definition check_event_id :: "pyval \<Rightarrow> exn + unit" where
  "check_event_id eid =
     rewrap_value_type (''Invalid EventID: '' @ py_str eid @ '' - '')
       (and_then
          (case eid of
             PDict d \<Rightarrow>
               and_then (py_contains eid ''_text'') (\<lambda>has_text.
               if \<not> has_text
               then raise_validation ''EventID dict must have '_text' field''
               else
               and_then (py_getitem eid ''_text'') (\<lambda>t.
               and_then (py_int t) (\<lambda>event_id.
               and_then (py_contains eid ''Qualifiers'') (\<lambda>has_q.
               if has_q
               then and_then (py_getitem eid ''Qualifiers'') (\<lambda>q.
                    and_then (py_int q) (\<lambda>qualifiers.
                    if qualifiers < 0
                    then raise_validation
                           (''EventID Qualifiers must be non-negative, got '' @ py_str_int qualifiers)
                    else Inr event_id))
               else Inr event_id))))
           | _ \<Rightarrow> py_int eid)
          (\<lambda>event_id.
             if event_id < 0
             then raise_validation (''EventID must be non-negative, got '' @ py_str_int event_id)
             else Inr ()))"

definition validate_system_properties :: "pyval \<Rightarrow> exn + unit" where
  "validate_system_properties system =
     and_then (missing_in system [''Provider'', ''EventID'', ''Computer'']) (\<lambda>missing.
     if missing \<noteq> []
     then raise_validation (''Missing required System elements: '' @ py_join '', '' missing)
     else
     and_then (py_getitem system ''Provider'') (\<lambda>provider.
     and_then (validate_provider provider) (\<lambda>_.
     and_then (py_getitem system ''EventID'') (\<lambda>eid.
     and_then (check_event_id eid) (\<lambda>_.
     and_then (py_contains system ''Correlation'') (\<lambda>has_correlation.
     and_then (if has_correlation
               then and_then (py_getitem system ''Correlation'') validate_correlation
               else Inr ()) (\<lambda>_.
     and_then (py_contains system ''Execution'') (\<lambda>has_execution.
     and_then (if has_execution
               then and_then (py_getitem system ''Execution'') validate_execution
               else Inr ()) (\<lambda>_.
     and_then (py_contains system ''Keywords'') (\<lambda>has_keywords.
     and_then (if has_keywords
               then and_then (py_getitem system ''Keywords'') (\<lambda>kw.
                    and_then (validate_hex_value kw HEX_INT64_PATTERN) (\<lambda>ok.
                    if \<not> ok
                    then raise_validation (''Invalid Keywords format: '' @ py_str kw)
                    else Inr ()))
               else Inr ()) (\<lambda>_.
     and_then (py_contains system ''Version'') (\<lambda>has_version.
     and_then (if has_version
               then and_then (py_getitem system ''Version'') (\<lambda>v.
                    and_then (py_int v) (\<lambda>version.
                    if \<not> (0 \<le> version \<and> version \<le> 255)
                    then raise_validation
                           (''Version must be between 0 and 255, got '' @ py_str_int version)
                    else Inr ()))
               else Inr ()) (\<lambda>_.
     and_then (py_contains system ''Level'') (\<lambda>has_level.
     if has_level
     then and_then (py_getitem system ''Level'') (\<lambda>v.
          and_then (py_int v) (\<lambda>level.
          if \<not> (0 \<le> level \<and> level \<le> 15)
          then raise_validation (''Level must be between 0 and 15, got '' @ py_str_int level)
          else Inr ()))
     else Inr ()))))))))))))))"

definition is_dict :: "pyval \<Rightarrow> bool" where
  "is_dict v = (case v of PDict _ \<Rightarrow> True | _ \<Rightarrow> False)"

definition is_list :: "pyval \<Rightarrow> bool" where
  "is_list v = (case v of PList _ \<Rightarrow> True | _ \<Rightarrow> False)"

definition is_str :: "pyval \<Rightarrow> bool" where
  "is_str v = (case v of PStr _ \<Rightarrow> True | _ \<Rightarrow> False)"

definition boolean_lexicon :: "string list" where
  "boolean_lexicon = [''yes'', ''no'', ''true'', ''false'', ''0'', ''1'', ''func_bool'']"

text \<open>The body of the loop over the entries of \<open>EventData.Data\<close>.\<close>

definition check_data_entry :: "pyval \<Rightarrow> exn + unit" where
  "check_data_entry data =
     (if \<not> is_dict data
      then raise_validation ''Each Data element must be a dictionary''
      else
      and_then (py_contains data ''Name'') (\<lambda>has_name.
      if \<not> has_name
      then raise_validation ''Each Data element must have a Name''
      else
      and_then (py_get data ''Type'' PNone) (\<lambda>ty.
      if py_eq_str ty ''win:Boolean''
      then and_then (py_get data ''_text'' (PStr [])) (\<lambda>t.
           let value = py_lower (py_str t)
           in if value \<notin> set boolean_lexicon
              then and_then (py_getitem data ''Name'') (\<lambda>name.
                   raise_validation
                     (''Invalid boolean value for '' @ py_str name @ '': '' @ value))
              else Inr ())
      else Inr ())))"

fun check_data_entries :: "pyval list \<Rightarrow> exn + unit" where
  "check_data_entries [] = Inr ()"
| "check_data_entries (data # rest) =
     and_then (check_data_entry data) (\<lambda>_. check_data_entries rest)"

definition validate_event_data :: "pyval \<Rightarrow> exn + unit" where
  "validate_event_data event_data =
     and_then (py_contains event_data ''Data'') (\<lambda>has_data.
     if has_data
     then and_then (py_getitem event_data ''Data'') (\<lambda>entries.
          case entries of
            PList xs \<Rightarrow> check_data_entries xs
          | _ \<Rightarrow> raise_validation ''EventData.Data must be a list'')
     else Inr ())"

subsection \<open>The event descriptor\<close>

record EventDescriptor =
  Id_field :: int
  Version :: int
  Channel :: int
  Level :: int
  Opcode :: int
  Task :: int
  Keyword :: int

text \<open>
  The conversion of the \<open>Keyword\<close> field: base 16 for a text, \<open>int\<close> for anything else.
\<close>

definition convert_keyword :: "pyval \<Rightarrow> exn + int" where
  "convert_keyword v = (case v of PStr s \<Rightarrow> py_int_text s 16 | _ \<Rightarrow> py_int v)"

definition required_descriptor_fields :: "string list" where
  "required_descriptor_fields =
     [''Id'', ''Version'', ''Channel'', ''Level'', ''Opcode'', ''Task'', ''Keyword'']"

text \<open>The range checks on the converted descriptor.\<close>

definition check_descriptor_ranges :: "EventDescriptor \<Rightarrow> exn + EventDescriptor" where
  "check_descriptor_ranges event_desc =
     (if \<not> (0 \<le> Level event_desc \<and> Level event_desc \<le> 15)
      then raise_validation
             (''Level must be between 0 and 15, got '' @ py_str_int (Level event_desc))
      else if \<not> (0 \<le> Opcode event_desc \<and> Opcode event_desc \<le> 240)
      then raise_validation
             (''Opcode must be between 0 and 240, got '' @ py_str_int (Opcode event_desc))
      else if Task event_desc < 0
      then raise_validation
             (''Task must be non-negative, got '' @ py_str_int (Task event_desc))
      else Inr event_desc)"

definition validate_event_descriptor :: "pyval \<Rightarrow> exn + EventDescriptor" where
  "validate_event_descriptor descriptor =
     rewrap_value_type ''Invalid value in EventDescriptor: ''
       (and_then (missing_in descriptor required_descriptor_fields) (\<lambda>missing_fields.
        if missing_fields \<noteq> []
        then raise_validation
               (''Missing required fields in EventDescriptor: '' @ py_join '', '' missing_fields)
        else
        and_then (and_then (py_getitem descriptor ''Id'') py_int) (\<lambda>i.
        and_then (and_then (py_getitem descriptor ''Version'') py_int) (\<lambda>v.
        and_then (and_then (py_getitem descriptor ''Channel'') py_int) (\<lambda>c.
        and_then (and_then (py_getitem descriptor ''Level'') py_int) (\<lambda>l.
        and_then (and_then (py_getitem descriptor ''Opcode'') py_int) (\<lambda>opc.
        and_then (and_then (py_getitem descriptor ''Task'') py_int) (\<lambda>t.
        and_then (and_then (py_getitem descriptor ''Keyword'') convert_keyword) (\<lambda>k.
        check_descriptor_ranges
          \<lparr>Id_field = i, Version = v, Channel = c, Level = l, Opcode = opc, Task = t,
           Keyword = k\<rparr>)))))))))"

subsection \<open>Security events\<close>

datatype SecurityEventID =
    LOGON_SUCCESS
  | LOGON_FAILED
  | ACCOUNT_CREATED
  | ACCOUNT_ENABLED
  | PASSWORD_CHANGE
  | ACCOUNT_LOCKED
  | USER_DELETED

fun SecurityEventID_value :: "SecurityEventID \<Rightarrow> int" where
  "SecurityEventID_value LOGON_SUCCESS = 4624"
| "SecurityEventID_value LOGON_FAILED = 4625"
| "SecurityEventID_value ACCOUNT_CREATED = 4720"
| "SecurityEventID_value ACCOUNT_ENABLED = 4722"
| "SecurityEventID_value PASSWORD_CHANGE = 4723"
| "SecurityEventID_value ACCOUNT_LOCKED = 4740"
| "SecurityEventID_value USER_DELETED = 4726"

definition SecurityEventID_members :: "SecurityEventID list" where
  "SecurityEventID_members =
     [LOGON_SUCCESS, LOGON_FAILED, ACCOUNT_CREATED, ACCOUNT_ENABLED, PASSWORD_CHANGE,
      ACCOUNT_LOCKED, USER_DELETED]"

text \<open>\<open>SecurityEventID(event_id)\<close>: the member with that value, if there is one.\<close>

definition SecurityEventID_of :: "pyval \<Rightarrow> SecurityEventID option" where
  "SecurityEventID_of v = find (\<lambda>e. py_eq_int v (SecurityEventID_value e)) SecurityEventID_members"

record security_template =
  message :: string
  required_fields :: "string list"
  field_types :: "(string \<times> string) list"

definition tab :: char where "tab = CHR 0x09"

definition LOGON_SUCCESS_template :: security_template where
  "LOGON_SUCCESS_template =
     \<lparr>message =
        ''An account was successfully logged on.'' @ [newline] @
        ''Subject:'' @ [newline] @
        [tab] @ ''Security ID:'' @ [tab, tab] @ ''%1'' @ [newline] @
        [tab] @ ''Account Name:'' @ [tab, tab] @ ''%2'' @ [newline] @
        [tab] @ ''Account Domain:'' @ [tab, tab] @ ''%3'' @ [newline] @
        [tab] @ ''Logon ID:'' @ [tab, tab] @ ''%4'' @ [newline] @
        ''Logon Information:'' @ [newline] @
        [tab] @ ''Logon Type:'' @ [tab, tab] @ ''%5'' @ [newline] @
        [tab] @ ''Restricted Admin Mode:'' @ [tab] @ ''%6'' @ [newline] @
        [tab] @ ''Virtual Account:'' @ [tab, tab] @ ''%7'' @ [newline] @
        [tab] @ ''Elevated Token:'' @ [tab, tab] @ ''%8'' @ [newline],
      required_fields =
        [''SubjectUserSid'', ''SubjectUserName'', ''SubjectDomainName'', ''SubjectLogonId'',
         ''LogonType'', ''RestrictedAdminMode'', ''VirtualAccount'', ''ElevatedToken''],
      field_types =
        [(''SubjectUserSid'', ''win:SID''),
         (''SubjectUserName'', ''win:UnicodeString''),
         (''SubjectDomainName'', ''win:UnicodeString''),
         (''SubjectLogonId'', ''win:HexInt64''),
         (''LogonType'', ''win:UInt32''),
         (''RestrictedAdminMode'', ''win:Boolean''),
         (''VirtualAccount'', ''win:Boolean''),
         (''ElevatedToken'', ''win:Boolean'')]\<rparr>"

fun SECURITY_EVENT_TEMPLATES :: "SecurityEventID \<Rightarrow> security_template option" where
  "SECURITY_EVENT_TEMPLATES LOGON_SUCCESS = Some LOGON_SUCCESS_template"
| "SECURITY_EVENT_TEMPLATES _ = None"

text \<open>
  The name-indexed dictionary of the entries. Its keys are the \<open>Name\<close> values, which may
  be any hashable value; a later entry of the same name replaces the value of the earlier
  one and keeps its place.
\<close>

definition py_hashable :: "pyval \<Rightarrow> bool" where
  "py_hashable v = (case v of PList _ \<Rightarrow> False | PDict _ \<Rightarrow> False | _ \<Rightarrow> True)"

definition py_key_eq :: "pyval \<Rightarrow> pyval \<Rightarrow> bool" where
  "py_key_eq a b = (case a of
       PInt i \<Rightarrow> py_eq_int b i
     | PBool x \<Rightarrow> py_eq_int b (if x then 1 else 0)
     | _ \<Rightarrow> a = b)"

fun dict_set :: "(pyval \<times> pyval) list \<Rightarrow> pyval \<Rightarrow> pyval \<Rightarrow> (pyval \<times> pyval) list" where
  "dict_set [] k v = [(k, v)]"
| "dict_set (kv # rest) k v =
     (if py_key_eq (fst kv) k then (fst kv, v) # rest else kv # dict_set rest k v)"

fun index_by_name :: "(pyval \<times> pyval) list \<Rightarrow> pyval list \<Rightarrow> exn + (pyval \<times> pyval) list" where
  "index_by_name acc [] = Inr acc"
| "index_by_name acc (item # items) =
     and_then (py_getitem item ''Name'') (\<lambda>name.
     if \<not> py_hashable name then Inl TypeError
     else index_by_name (dict_set acc name item) items)"

text \<open>Iterating over a value, as a \<open>for\<close> loop or a comprehension does.\<close>

definition py_iter :: "pyval \<Rightarrow> exn + pyval list" where
  "py_iter v = (case v of
       PList xs \<Rightarrow> Inr xs
     | PDict d \<Rightarrow> Inr (map (\<lambda>kv. PStr (fst kv)) d)
     | PStr s \<Rightarrow> Inr (map (\<lambda>c. PStr [c]) s)
     | _ \<Rightarrow> Inl TypeError)"

definition dict_has_key :: "(pyval \<times> pyval) list \<Rightarrow> pyval \<Rightarrow> bool" where
  "dict_has_key d k = list_ex (\<lambda>kv. py_key_eq (fst kv) k) d"

text \<open>The loop that compares the declared types.\<close>

fun check_field_types :: "security_template \<Rightarrow> (pyval \<times> pyval) list \<Rightarrow> exn + unit" where
  "check_field_types template [] = Inr ()"
| "check_field_types template (entry # rest) =
     (case fst entry of
        PStr field_name \<Rightarrow>
          (case map_of (field_types template) field_name of
             Some expected_type \<Rightarrow>
               and_then (py_get (snd entry) ''Type'' PNone) (\<lambda>actual.
               if \<not> py_eq_str actual expected_type
               then Inl (ValueError (Message
                      (''Invalid type for field '' @ field_name @ ''. Expected '' @
                       expected_type @ '', got '' @ py_str actual)))
               else check_field_types template rest)
           | None \<Rightarrow> check_field_types template rest)
      | _ \<Rightarrow> check_field_types template rest)"

definition validate_security_event :: "pyval \<Rightarrow> pyval \<Rightarrow> exn + unit" where
  "validate_security_event event_id data =
     (case SecurityEventID_of event_id of
        None \<Rightarrow> Inl (ValueError (Message (''Unknown Security Event ID: '' @ py_str event_id)))
      | Some event \<Rightarrow>
     (case SECURITY_EVENT_TEMPLATES event of
        None \<Rightarrow> Inl (ValueError (Message
                  (''No template defined for Security Event ID: '' @ py_str event_id)))
      | Some template \<Rightarrow>
     and_then (py_contains data ''Data'') (\<lambda>has_data.
     if \<not> has_data
     then Inl (ValueError (Message ''EventData must contain Data array''))
     else
     and_then (py_getitem data ''Data'') (\<lambda>entries.
     and_then (if py_truthy entries
               then and_then (py_iter entries) (index_by_name [])
               else Inr []) (\<lambda>data_fields.
     let missing_fields =
           filter (\<lambda>field. \<not> dict_has_key data_fields (PStr field)) (required_fields template)
     in if missing_fields \<noteq> []
        then Inl (ValueError (Message
               (''Missing required fields for Security Event '' @ py_str event_id @ '': '' @
                py_repr (PList (map PStr missing_fields)))))
        else check_field_types template data_fields)))))"

definition validate_security_event_data :: "pyval \<Rightarrow> pyval \<Rightarrow> exn + unit" where
  "validate_security_event_data event_data event_id =
     (case (if \<not> is_dict event_data
            then raise_validation ''Security Event data must be a dictionary''
            else validate_security_event event_id event_data) of
        Inl (ValueError m) \<Rightarrow>
          Inl (WindowsEventValidationError (prefixed ''Security Event validation failed: '' m))
      | r \<Rightarrow> r)"

subsection \<open>Rendering information\<close>

definition validate_rendering_info :: "pyval \<Rightarrow> exn + unit" where
  "validate_rendering_info rendering =
     and_then (py_contains rendering ''Culture'') (\<lambda>has_culture.
     if \<not> has_culture
     then raise_validation ''RenderingInfo must have Culture attribute''
     else
     and_then (py_getitem rendering ''Culture'') (\<lambda>culture.
     and_then (re_match CULTURE_PATTERN culture) (\<lambda>ok.
     if \<not> ok
     then raise_validation
            (''Invalid Culture format: '' @ py_str culture @ ''. Expected format: 'en-US'' @
             [squote])
     else
     and_then (py_contains rendering ''Keywords'') (\<lambda>has_keywords.
     if has_keywords
     then and_then (py_getitem rendering ''Keywords'') (\<lambda>keywords.
          and_then (if is_dict keywords then py_contains keywords ''Keyword'' else Inr False)
            (\<lambda>has_keyword.
          if \<not> has_keyword
          then raise_validation ''Keywords in RenderingInfo must contain Keyword elements''
          else
          and_then (py_getitem keywords ''Keyword'') (\<lambda>kws.
          case kws of
            PList xs \<Rightarrow>
              (if length xs > 64
               then raise_validation ''Maximum 64 Keywords allowed in RenderingInfo''
               else Inr ())
          | _ \<Rightarrow> raise_validation ''Keywords.Keyword must be a list'')))
     else Inr ()))))"

subsection \<open>The complete configuration\<close>

definition STANDARD_CHANNELS :: "(string \<times> int) list" where
  "STANDARD_CHANNELS =
     [(''Application'', 1), (''Security'', 2), (''System'', 3), (''Setup'', 4),
      (''ForwardedEvents'', 5)]"

text \<open>\<open>channel_name in STANDARD_CHANNELS\<close> and the table entry, for any value.\<close>

definition standard_channel_id :: "pyval \<Rightarrow> exn + int option" where
  "standard_channel_id channel_name =
     (if \<not> py_hashable channel_name then Inl TypeError
      else Inr (case channel_name of PStr s \<Rightarrow> map_of STANDARD_CHANNELS s | _ \<Rightarrow> None))"

text \<open>The block that compares the channel of the descriptor with the standard table.\<close>

definition check_channel :: "pyval \<Rightarrow> pyval \<Rightarrow> exn + unit" where
  "check_channel system descriptor =
     and_then (py_contains system ''Channel'') (\<lambda>has_channel.
     if has_channel
     then and_then (py_getitem system ''Channel'') (\<lambda>channel_name.
          and_then (standard_channel_id channel_name) (\<lambda>entry.
          case entry of
            Some channel_id \<Rightarrow>
              and_then (py_getitem descriptor ''Channel'') (\<lambda>channel.
              if \<not> py_eq_int channel channel_id
              then raise_validation (''Channel ID mismatch for '' @ py_str channel_name)
              else Inr ())
          | None \<Rightarrow> Inr ()))
     else Inr ())"

text \<open>The block of the event-specific validation.\<close>

definition check_security_event :: "pyval \<Rightarrow> pyval \<Rightarrow> exn + unit" where
  "check_security_event event descriptor =
     and_then (py_getitem descriptor ''Id'') (\<lambda>event_id.
     if list_ex (\<lambda>e. py_eq_int event_id (SecurityEventID_value e)) SecurityEventID_members
     then and_then (py_contains event ''EventData'') (\<lambda>has_event_data.
          if \<not> has_event_data
          then raise_validation (''Security Event '' @ py_str event_id @ '' requires EventData'')
          else and_then (py_getitem event ''EventData'') (\<lambda>event_data.
               validate_security_event_data event_data event_id))
     else Inr ())"

definition check_rendering_info :: "pyval \<Rightarrow> exn + unit" where
  "check_rendering_info event =
     and_then (py_contains event ''RenderingInfo'') (\<lambda>has_rendering.
     if has_rendering
     then and_then (py_getitem event ''RenderingInfo'') validate_rendering_info
     else Inr ())"

definition check_event_data :: "pyval \<Rightarrow> exn + unit" where
  "check_event_data event =
     and_then (py_contains event ''EventData'') (\<lambda>has_event_data.
     if has_event_data
     then and_then (py_getitem event ''EventData'') validate_event_data
     else Inr ())"

definition validate_windows_event_config :: "pyval \<Rightarrow> exn + unit" where
  "validate_windows_event_config config =
     and_then (missing_in config [''event_descriptor'', ''template'', ''Event'']) (\<lambda>missing.
     if missing \<noteq> []
     then raise_validation (''Missing required fields: '' @ py_join '', '' missing)
     else
     and_then (py_getitem config ''template'') (\<lambda>template.
     if \<not> is_dict template
     then raise_validation ''Template must be a dictionary''
     else
     and_then (py_contains template ''message'') (\<lambda>has_message.
     and_then (if has_message then py_contains template ''values'' else Inr False) (\<lambda>has_both.
     if \<not> has_both
     then raise_validation ''Template must contain message and values''
     else
     and_then (py_getitem config ''Event'') (\<lambda>event.
     and_then (py_contains event ''System'') (\<lambda>has_system.
     if \<not> has_system
     then raise_validation ''Missing System element in Event''
     else
     and_then (py_getitem event ''System'') (\<lambda>system.
     and_then (validate_system_properties system) (\<lambda>_.
     and_then (py_getitem config ''event_descriptor'') (\<lambda>descriptor.
     and_then (validate_event_descriptor descriptor) (\<lambda>_.
     and_then (check_channel system descriptor) (\<lambda>_.
     and_then (check_security_event event descriptor) (\<lambda>_.
     and_then (check_rendering_info event) (\<lambda>_.
     check_event_data event)))))))))))))"

section \<open>The value provider\<close>

text \<open>
  The generators read a random source and the clock. Both are held in a world that is
  passed along: the \<open>n\<close>-th draw of each kind is a function of \<open>n\<close>, and every call of a
  generator moves the counter on.
\<close>

record world =
  uuid4_str :: "nat \<Rightarrow> string"
  randint_draw :: "nat \<Rightarrow> int \<Rightarrow> int \<Rightarrow> int"
  now_isoformat :: "nat \<Rightarrow> string"
  now_iso8601 :: "nat \<Rightarrow> string"
  draws :: nat

definition next_draw :: "world \<Rightarrow> world" where
  "next_draw w = w\<lparr>draws := Suc (draws w)\<rparr>"

definition func_guid :: "world \<Rightarrow> string \<times> world" where
  "func_guid w = (''{'' @ uuid4_str w (draws w) @ ''}'', next_draw w)"

definition func_sid :: "world \<Rightarrow> string \<times> world" where
  "func_sid w =
     (''S-1-5-21-'' @ py_str_int (randint_draw w (draws w) 1000000000 9999999999), next_draw w)"

definition func_hostname :: "world \<Rightarrow> string \<times> world" where
  "func_hostname w = (''WIN-'' @ py_str_int (randint_draw w (draws w) 1000 9999), next_draw w)"

definition func_datetime :: "world \<Rightarrow> string \<times> world" where
  "func_datetime w = (now_isoformat w (draws w), next_draw w)"

definition func_datetime_iso8601 :: "world \<Rightarrow> string \<times> world" where
  "func_datetime_iso8601 w = (now_iso8601 w (draws w), next_draw w)"

text \<open>
  What \<open>get_function\<close> returns: the constant function of its argument, or one of the
  attributes of the module whose name starts with \<open>func_\<close>.
\<close>

datatype function_object =
    Lambda string
  | Func_guid
  | Func_sid
  | Func_hostname
  | Func_datetime
  | Func_datetime_iso8601

definition module_getattr :: "string \<Rightarrow> function_object option" where
  "module_getattr name =
     (if name = ''func_guid'' then Some Func_guid
      else if name = ''func_sid'' then Some Func_sid
      else if name = ''func_hostname'' then Some Func_hostname
      else if name = ''func_datetime'' then Some Func_datetime
      else if name = ''func_datetime_iso8601'' then Some Func_datetime_iso8601
      else None)"

definition get_function :: "string \<Rightarrow> exn + function_object" where
  "get_function function_str =
     (if \<not> py_startswith function_str ''func_'' then Inr (Lambda function_str)
      else case py_split_on (CHR ''_'') function_str of
             _ # name # _ \<Rightarrow>
               (case module_getattr (''func_'' @ name) of
                  Some f \<Rightarrow> Inr f
                | None \<Rightarrow> Inl (ValueError (Message (''Unknown function: func_'' @ name))))
           | _ \<Rightarrow> Inl IndexError)"

text \<open>Calling a function object with positional arguments: none of them takes any.\<close>

definition call_function :: "function_object \<Rightarrow> string list \<Rightarrow> world \<Rightarrow> (exn + string) \<times> world" where
  "call_function f args w =
     (if args \<noteq> [] then (Inl TypeError, w)
      else case f of
             Lambda s \<Rightarrow> (Inr s, w)
           | Func_guid \<Rightarrow> (Inr (fst (func_guid w)), snd (func_guid w))
           | Func_sid \<Rightarrow> (Inr (fst (func_sid w)), snd (func_sid w))
           | Func_hostname \<Rightarrow> (Inr (fst (func_hostname w)), snd (func_hostname w))
           | Func_datetime \<Rightarrow> (Inr (fst (func_datetime w)), snd (func_datetime w))
           | Func_datetime_iso8601 \<Rightarrow>
               (Inr (fst (func_datetime_iso8601 w)), snd (func_datetime_iso8601 w)))"

definition exec_function_str :: "string \<Rightarrow> world \<Rightarrow> (exn + string) \<times> world" where
  "exec_function_str function_str w =
     (case py_split function_str of
        [] \<Rightarrow> (Inl IndexError, w)
      | t # args \<Rightarrow>
          (case get_function t of
             Inl e \<Rightarrow> (Inl e, w)
           | Inr func \<Rightarrow>
               (if length (t # args) = 1 then call_function func [] w
                else call_function func args w)))"

definition get_random_value :: "pyval \<Rightarrow> world \<Rightarrow> (exn + string) \<times> world" where
  "get_random_value field_value w =
     (case field_value of
        PStr s \<Rightarrow>
          (case exec_function_str s w of
             (Inl (ValueError _), w') \<Rightarrow> (Inr s, w')
           | (Inl IndexError, w') \<Rightarrow> (Inr s, w')
           | r \<Rightarrow> r)
      | _ \<Rightarrow> (Inr (py_str field_value), w))"

section \<open>The serializer\<close>

definition py_items :: "pyval \<Rightarrow> exn + (string \<times> pyval) list" where
  "py_items v = (case v of PDict d \<Rightarrow> Inr d | _ \<Rightarrow> Inl AttributeError)"

definition attribute :: "string \<Rightarrow> string \<Rightarrow> string" where
  "attribute k v = k @ [CHR ''='', dquote] @ v @ [dquote]"

definition element_line :: "string \<Rightarrow> string list \<Rightarrow> string \<Rightarrow> string" where
  "element_line key attrs text =
     (if attrs \<noteq> []
      then ''    <'' @ key @ '' '' @ py_join '' '' attrs @ ''>'' @ text @ ''</'' @ key @ ''>''
      else ''    <'' @ key @ ''>'' @ text @ ''</'' @ key @ ''>'')"

text \<open>
  The inner loop over the items of a \<open>System\<close> field that is a dictionary: every value
  goes through \<open>get_random_value\<close>.
\<close>

fun system_attrs ::
  "(string \<times> pyval) list \<Rightarrow> string list \<Rightarrow> string \<Rightarrow> world \<Rightarrow> (exn + string list \<times> string) \<times> world" where
  "system_attrs [] attrs text w = (Inr (attrs, text), w)"
| "system_attrs (kv # rest) attrs text w =
     (case get_random_value (snd kv) w of
        (Inl e, w') \<Rightarrow> (Inl e, w')
      | (Inr r, w') \<Rightarrow>
          (if fst kv = ''_text'' then system_attrs rest attrs r w'
           else system_attrs rest (attrs @ [attribute (fst kv) r]) text w'))"

text \<open>The loop over the fields of \<open>System\<close>, appending to the lines so far.\<close>

fun system_lines ::
  "(string \<times> pyval) list \<Rightarrow> string list \<Rightarrow> world \<Rightarrow> (exn + string list) \<times> world" where
  "system_lines [] xml w = (Inr xml, w)"
| "system_lines (kv # rest) xml w =
     (case snd kv of
        PDict d \<Rightarrow>
          (case system_attrs d [] [] w of
             (Inl e, w') \<Rightarrow> (Inl e, w')
           | (Inr (attrs, text), w') \<Rightarrow>
               system_lines rest (xml @ [element_line (fst kv) attrs text]) w')
      | value \<Rightarrow>
          (case get_random_value value w of
             (Inl e, w') \<Rightarrow> (Inl e, w')
           | (Inr r, w') \<Rightarrow> system_lines rest (xml @ [element_line (fst kv) [] r]) w'))"

text \<open>
  The inner loop over the items of a \<open>Data\<close> entry: only \<open>_text\<close> goes through
  \<open>get_random_value\<close>, the other values are formatted as they are.
\<close>

fun data_attrs ::
  "(string \<times> pyval) list \<Rightarrow> string list \<Rightarrow> string \<Rightarrow> world \<Rightarrow> (exn + string list \<times> string) \<times> world" where
  "data_attrs [] attrs text w = (Inr (attrs, text), w)"
| "data_attrs (kv # rest) attrs text w =
     (if fst kv = ''_text''
      then (case get_random_value (snd kv) w of
              (Inl e, w') \<Rightarrow> (Inl e, w')
            | (Inr r, w') \<Rightarrow> data_attrs rest attrs r w')
      else data_attrs rest (attrs @ [attribute (fst kv) (py_str (snd kv))]) text w)"

fun data_lines :: "pyval list \<Rightarrow> string list \<Rightarrow> world \<Rightarrow> (exn + string list) \<times> world" where
  "data_lines [] xml w = (Inr xml, w)"
| "data_lines (data # rest) xml w =
     (case py_items data of
        Inl e \<Rightarrow> (Inl e, w)
      | Inr items \<Rightarrow>
          (case data_attrs items [] [] w of
             (Inl e, w') \<Rightarrow> (Inl e, w')
           | (Inr (attrs, text), w') \<Rightarrow>
               data_lines rest (xml @ [element_line ''Data'' attrs text]) w'))"

definition xml_declaration :: string where
  "xml_declaration = ''<?xml version=\"1.0\" encoding=\"UTF-8\"?>''"

definition event_open :: string where
  "event_open = ''<Event xmlns=\"http://schemas.microsoft.com/win/2004/08/events/event\">''"

text \<open>The part of the serializer that adds the \<open>EventData\<close> section.\<close>

definition event_data_section :: "pyval \<Rightarrow> string list \<Rightarrow> world \<Rightarrow> (exn + string list) \<times> world" where
  "event_data_section event xml w =
     (case py_contains event ''EventData'' of
        Inl e \<Rightarrow> (Inl e, w)
      | Inr has_event_data \<Rightarrow>
          (if has_event_data
           then (case and_then (py_getitem event ''EventData'') (\<lambda>event_data.
                      and_then (py_getitem event_data ''Data'') py_iter) of
                   Inl e \<Rightarrow> (Inl e, w)
                 | Inr entries \<Rightarrow>
                     (case data_lines entries (xml @ [''  <EventData>'']) w of
                        (Inl e, w') \<Rightarrow> (Inl e, w')
                      | (Inr xml', w') \<Rightarrow> (Inr (xml' @ [''  </EventData>'']), w')))
           else (Inr xml, w)))"

definition get_windows_event_log :: "pyval \<Rightarrow> world \<Rightarrow> (exn + string) \<times> world" where
  "get_windows_event_log config w =
     (case validate_windows_event_config config of
        Inl e \<Rightarrow> (Inl e, w)
      | Inr _ \<Rightarrow>
     (case and_then (py_getitem config ''Event'') (\<lambda>event.
           and_then (py_getitem event ''System'') py_items) of
        Inl e \<Rightarrow> (Inl e, w)
      | Inr system \<Rightarrow>
     (case system_lines system [xml_declaration, event_open, ''  <System>''] w of
        (Inl e, w') \<Rightarrow> (Inl e, w')
      | (Inr xml, w') \<Rightarrow>
     (case py_getitem config ''Event'' of
        Inl e \<Rightarrow> (Inl e, w')
      | Inr event \<Rightarrow>
     (case event_data_section event (xml @ [''  </System>'']) w' of
        (Inl e, w'') \<Rightarrow> (Inl e, w'')
      | (Inr xml', w'') \<Rightarrow> (Inr (py_join [newline] (xml' @ [''</Event>''])), w''))))))"

section \<open>Notions of the specification\<close>

text \<open>
  The readings of a text of digits that the specification speaks of: the value of the
  digits in base 16 and in base 10, most significant digit first.
\<close>

definition hex_digit :: "char \<Rightarrow> bool" where
  "hex_digit c = (c \<in> set ''0123456789abcdefABCDEF'')"

definition hex_digit_reading :: "char \<Rightarrow> int" where
  "hex_digit_reading c =
     (if c \<in> set ''0123456789'' then int (code c) - 48
      else if c \<in> set ''abcdef'' then int (code c) - 87
      else int (code c) - 55)"

definition hexadecimal_reading :: "string \<Rightarrow> int" where
  "hexadecimal_reading ds = foldl (\<lambda>acc c. acc * 16 + hex_digit_reading c) 0 ds"

definition decimal_reading :: "string \<Rightarrow> int" where
  "decimal_reading ds = foldl (\<lambda>acc c. acc * 10 + (int (code c) - 48)) 0 ds"

text \<open>
  The entries of \<open>EventData.Data\<close> as the specification speaks of them: an entry named
  \<open>n\<close>, an entry that has a name that can index a dictionary, the required fields of the
  logon template that no entry is named after, and the last entry of a given name.
\<close>

definition named :: "string \<Rightarrow> pyval \<Rightarrow> bool" where
  "named n item = (py_getitem item ''Name'' = Inr (PStr n))"

definition has_hashable_name :: "pyval \<Rightarrow> bool" where
  "has_hashable_name item =
     (case py_getitem item ''Name'' of Inr name \<Rightarrow> py_hashable name | Inl _ \<Rightarrow> False)"

definition absent_fields :: "pyval list \<Rightarrow> string list" where
  "absent_fields xs =
     filter (\<lambda>f. \<not> list_ex (named f) xs) (required_fields LOGON_SUCCESS_template)"

fun last_named :: "string \<Rightarrow> pyval list \<Rightarrow> pyval option" where
  "last_named n [] = None"
| "last_named n (item # items) =
     (case last_named n items of
        Some later \<Rightarrow> Some later
      | None \<Rightarrow> (if named n item then Some item else None))"

text \<open>
  The lookup order of the name-indexed dictionary, for the names that are texts: each
  name at the place of its first entry. With it, the declared type of a name, the actual
  \<open>Type\<close> of the last entry of a name, and the names whose actual type differs from the
  declared one.
\<close>

definition entry_text_name :: "pyval \<Rightarrow> string list" where
  "entry_text_name item =
     (case py_getitem item ''Name'' of Inr (PStr n) \<Rightarrow> [n] | _ \<Rightarrow> [])"

fun first_occurrences :: "string list \<Rightarrow> string list" where
  "first_occurrences [] = []"
| "first_occurrences (n # ns) = n # filter (\<lambda>m. m \<noteq> n) (first_occurrences ns)"

definition text_names :: "pyval list \<Rightarrow> string list" where
  "text_names xs = first_occurrences (concat (map entry_text_name xs))"

definition text_keys :: "(pyval \<times> pyval) list \<Rightarrow> string list" where
  "text_keys df = concat (map (\<lambda>kv. case fst kv of PStr n \<Rightarrow> [n] | _ \<Rightarrow> []) df)"

definition declared_type :: "string \<Rightarrow> string" where
  "declared_type n =
     (case map_of (field_types LOGON_SUCCESS_template) n of Some t \<Rightarrow> t | None \<Rightarrow> [])"

definition actual_type :: "pyval list \<Rightarrow> string \<Rightarrow> pyval" where
  "actual_type xs n =
     (case last_named n xs of
        Some item \<Rightarrow> (case py_get item ''Type'' PNone of Inr a \<Rightarrow> a | Inl _ \<Rightarrow> PNone)
      | None \<Rightarrow> PNone)"

definition type_mismatch :: "pyval list \<Rightarrow> string \<Rightarrow> bool" where
  "type_mismatch xs n =
     (case map_of (field_types LOGON_SUCCESS_template) n of
        Some t \<Rightarrow> actual_type xs n \<noteq> PStr t
      | None \<Rightarrow> False)"

text \<open>
  A text asks for a generator when its first token carries the marker \<open>func_\<close>; a value
  is resolved when no text in it does.
\<close>

definition is_generator_spec :: "string \<Rightarrow> bool" where
  "is_generator_spec s = (case py_split s of [] \<Rightarrow> False | t # _ \<Rightarrow> py_startswith t ''func_'')"

fun resolved :: "pyval \<Rightarrow> bool"
  and resolved_list :: "pyval list \<Rightarrow> bool"
  and resolved_items :: "(string \<times> pyval) list \<Rightarrow> bool" where
  "resolved PNone = True"
| "resolved (PBool b) = True"
| "resolved (PInt i) = True"
| "resolved (PStr s) = (\<not> is_generator_spec s)"
| "resolved (PList xs) = resolved_list xs"
| "resolved (PDict d) = resolved_items d"
| "resolved_list [] = True"
| "resolved_list (x # xs) = (resolved x \<and> resolved_list xs)"
| "resolved_items [] = True"
| "resolved_items (kv # d) = (resolved (snd kv) \<and> resolved_items d)"

text \<open>
  The rendering that the specification describes for a resolved record. The value of a
  field specification is what the value provider returns for it; the text of an element
  is the value of its \<open>_text\<close> item, the other items are its attributes in the order
  of the mapping. A \<open>System\<close> field that is a mapping has the values of its items as
  attributes, any other field is an element without attributes; a \<open>Data\<close> entry has its
  items as attributes as they are written.
\<close>

definition value_alone :: "world \<Rightarrow> pyval \<Rightarrow> string" where
  "value_alone w v = (case fst (get_random_value v w) of Inr r \<Rightarrow> r | Inl _ \<Rightarrow> [])"

definition text_alone :: "world \<Rightarrow> (string \<times> pyval) list \<Rightarrow> string" where
  "text_alone w d =
     (case filter (\<lambda>a. fst a = ''_text'') d of
        [] \<Rightarrow> []
      | ys \<Rightarrow> value_alone w (snd (last ys)))"

definition rendered_field :: "world \<Rightarrow> string \<times> pyval \<Rightarrow> string" where
  "rendered_field w kv =
     (case snd kv of
        PDict d \<Rightarrow>
          element_line (fst kv)
            (map (\<lambda>a. attribute (fst a) (value_alone w (snd a)))
               (filter (\<lambda>a. fst a \<noteq> ''_text'') d))
            (text_alone w d)
      | v \<Rightarrow> element_line (fst kv) [] (value_alone w v))"

definition rendered_entry :: "world \<Rightarrow> pyval \<Rightarrow> string" where
  "rendered_entry w data =
     (case data of
        PDict d \<Rightarrow>
          element_line ''Data''
            (map (\<lambda>a. attribute (fst a) (py_str (snd a))) (filter (\<lambda>a. fst a \<noteq> ''_text'') d))
            (text_alone w d)
      | _ \<Rightarrow> [])"

text \<open>
  The lists that the serializer walks through: the fields of \<open>System\<close> and the entries
  of \<open>EventData.Data\<close>, in the order of the configuration.
\<close>

definition system_fields :: "pyval \<Rightarrow> (string \<times> pyval) list" where
  "system_fields config =
     (case and_then (py_getitem config ''Event'') (\<lambda>event.
           and_then (py_getitem event ''System'') py_items) of
        Inr items \<Rightarrow> items
      | Inl _ \<Rightarrow> [])"

definition data_entries :: "pyval \<Rightarrow> pyval list option" where
  "data_entries config =
     (case and_then (py_getitem config ''Event'') (\<lambda>event.
           and_then (py_getitem event ''EventData'') (\<lambda>event_data.
           and_then (py_getitem event_data ''Data'') py_iter)) of
        Inr entries \<Rightarrow> Some entries
      | Inl _ \<Rightarrow> None)"

definition ordered_rendering :: "world \<Rightarrow> pyval \<Rightarrow> string" where
  "ordered_rendering w config =
     py_join [newline]
       ([xml_declaration, event_open, ''  <System>''] @
        map (rendered_field w) (system_fields config) @
        [''  </System>''] @
        (case data_entries config of
           None \<Rightarrow> []
         | Some entries \<Rightarrow> ''  <EventData>'' # map (rendered_entry w) entries @ [''  </EventData>'']) @
        [''</Event>''])"

definition succeeded :: "exn + 'a \<Rightarrow> bool" where
  "succeeded r = (case r of Inr _ \<Rightarrow> True | Inl _ \<Rightarrow> False)"

section \<open>Configurations used as examples\<close>

text \<open>
  An application event whose provider name has two words: every value is a literal, none
  asks for a generator.
\<close>

definition application_error_config :: pyval where
  "application_error_config = PDict
     [(''event_descriptor'', PDict
         [(''Id'', PInt 1000), (''Version'', PInt 0), (''Channel'', PInt 1), (''Level'', PInt 2),
          (''Opcode'', PInt 0), (''Task'', PInt 100), (''Keyword'', PStr ''0x80000000000000'')]),
      (''template'', PDict
         [(''message'', PStr ''Faulting application''), (''values'', PList [])]),
      (''Event'', PDict
         [(''System'', PDict
            [(''Provider'', PDict [(''Name'', PStr ''Application Error'')]),
             (''EventID'', PStr ''1000''),
             (''Computer'', PStr ''PC01'')])])]"

text \<open>
  The logon event of the test suite: its \<open>System\<close> element, its eight \<open>Data\<close> entries, a
  descriptor with a chosen channel and level, and the configuration made of them.
\<close>

definition logon_entry :: "string \<Rightarrow> string \<Rightarrow> string \<Rightarrow> pyval" where
  "logon_entry name ty text = PDict [(''Name'', PStr name), (''Type'', PStr ty), (''_text'', PStr text)]"

definition logon_entries :: "pyval list" where
  "logon_entries =
     [logon_entry ''SubjectUserSid'' ''win:SID'' ''func_sid'',
      logon_entry ''SubjectUserName'' ''win:UnicodeString'' ''TestUser'',
      logon_entry ''SubjectDomainName'' ''win:UnicodeString'' ''DOMAIN'',
      logon_entry ''SubjectLogonId'' ''win:HexInt64'' ''0x123456'',
      logon_entry ''LogonType'' ''win:UInt32'' ''2'',
      logon_entry ''RestrictedAdminMode'' ''win:Boolean'' ''No'',
      logon_entry ''VirtualAccount'' ''win:Boolean'' ''No'',
      logon_entry ''ElevatedToken'' ''win:Boolean'' ''Yes'']"

definition logon_system :: "(string \<times> pyval) list" where
  "logon_system =
     [(''Provider'', PDict
         [(''Name'', PStr ''Microsoft-Windows-Security-Auditing''),
          (''Guid'', PStr ''{54849625-5478-4994-A5BA-3E3B0328C30D}'')]),
      (''EventID'', PDict [(''_text'', PStr ''4624''), (''Qualifiers'', PStr ''0'')]),
      (''Version'', PStr ''0''),
      (''Level'', PStr ''0''),
      (''Task'', PStr ''12544''),
      (''Opcode'', PStr ''0''),
      (''Keywords'', PStr ''0x8020000000000000''),
      (''TimeCreated'', PDict [(''SystemTime'', PStr ''func_datetime_iso8601'')]),
      (''EventRecordID'', PStr ''1234''),
      (''Correlation'', PDict [(''ActivityID'', PStr ''{12345678-1234-5678-1234-567812345678}'')]),
      (''Execution'', PDict [(''ProcessID'', PStr ''1234''), (''ThreadID'', PStr ''5678'')]),
      (''Channel'', PStr ''Security''),
      (''Computer'', PStr ''TestComputer'')]"

definition logon_descriptor :: "int \<Rightarrow> int \<Rightarrow> (string \<times> pyval) list" where
  "logon_descriptor channel level =
     [(''Id'', PInt 4624), (''Version'', PInt 0), (''Channel'', PInt channel),
      (''Level'', PInt level), (''Opcode'', PInt 0), (''Task'', PInt 12544),
      (''Keyword'', PStr ''0x8020000000000000'')]"

definition logon_template :: "(string \<times> pyval) list" where
  "logon_template =
     [(''message'', PStr ''An account was successfully logged on.''),
      (''values'', PList [PStr ''func_sid''])]"

definition logon_event :: "pyval list \<Rightarrow> (string \<times> pyval) list" where
  "logon_event entries =
     [(''xmlns'', PStr ''http://schemas.microsoft.com/win/2004/08/events/event''),
      (''System'', PDict logon_system),
      (''EventData'', PDict [(''Data'', PList entries)])]"

definition logon_config :: "(string \<times> pyval) list \<Rightarrow> pyval list \<Rightarrow> (string \<times> pyval) list" where
  "logon_config descriptor entries =
     [(''event_descriptor'', PDict descriptor),
      (''template'', PDict logon_template),
      (''Event'', PDict (logon_event entries))]"

text \<open>
  A world for the examples, and the logon event with every dynamic value replaced by a
  literal.
\<close>

definition sample_world :: world where
  "sample_world =
     \<lparr>uuid4_str = (\<lambda>n. ''3f2b8c1e-5d4a-4f6b-9c7d-0a1b2c3d4e5f''),
      randint_draw = (\<lambda>n lo hi. lo + int n),
      now_isoformat = (\<lambda>n. ''2024-02-20T10:00:00.000123''),
      now_iso8601 = (\<lambda>n. ''2024-02-20T10:00:00''),
      draws = 0\<rparr>"

definition settled_system :: "(string \<times> pyval) list" where
  "settled_system =
     [(''Provider'', PDict
         [(''Name'', PStr ''Microsoft-Windows-Security-Auditing''),
          (''Guid'', PStr ''{54849625-5478-4994-A5BA-3E3B0328C30D}'')]),
      (''EventID'', PDict [(''_text'', PStr ''4624''), (''Qualifiers'', PStr ''0'')]),
      (''Version'', PStr ''0''),
      (''TimeCreated'', PDict [(''SystemTime'', PStr ''2024-02-20T10:00:00'')]),
      (''Channel'', PStr ''Security''),
      (''Computer'', PStr ''TestComputer'')]"

definition settled_config :: pyval where
  "settled_config = PDict
     [(''event_descriptor'', PDict (logon_descriptor 2 0)),
      (''template'', PDict
         [(''message'', PStr ''An account was successfully logged on.''),
          (''values'', PList [PStr ''S-1-5-18''])]),
      (''Event'', PDict
         [(''System'', PDict settled_system),
          (''EventData'', PDict
             [(''Data'', PList
                (logon_entry ''SubjectUserSid'' ''win:SID'' ''S-1-5-18'' # tl logon_entries))])])]"

section \<open>Properties of the value provider\<close>

lemma py_split_func_guid_x: "py_split ''func_guid_x'' = [''func_guid_x'']"
  by code_simp

lemma py_split_func_guid_x_1: "py_split ''func_guid_x 1'' = [''func_guid_x'', ''1'']"
  by code_simp

lemma get_function_func_guid_x: "get_function ''func_guid_x'' = Inr Func_guid"
  by code_simp

lemma py_split_application_error:
  "py_split ''Application Error'' = [''Application'', ''Error'']"
  by code_simp

text \<open>
  C10. The specification \<open>func_datetime_iso8601\<close> does not reach the generator of that
  name: \<open>get_function\<close> keeps the piece between the first and the second underscore only,
  looks up \<open>func_datetime\<close> and returns that function, although the module does define
  \<open>func_datetime_iso8601\<close>.
\<close>

theorem get_function_datetime_iso8601_dispatch:
  "get_function ''func_datetime_iso8601'' = Inr Func_datetime \<and>
   module_getattr ''func_datetime_iso8601'' = Some Func_datetime_iso8601"
  by code_simp

text \<open>
  C7. The first token \<open>func_guid_x\<close> carries the marker and is not the name of any
  attribute of the module, yet the value provider does not give the specification back:
  it runs \<open>func_guid\<close> and returns a fresh GUID, and with one more token the call raises
  \<open>TypeError\<close>, which \<open>get_random_value\<close> does not catch.
\<close>

theorem get_random_value_unregistered_first_token:
  "module_getattr ''func_guid_x'' = None \<and>
   get_random_value (PStr ''func_guid_x'') w =
     (Inr (''{'' @ uuid4_str w (draws w) @ ''}''), next_draw w) \<and>
   get_random_value (PStr ''func_guid_x 1'') w = (Inl TypeError, w)"
  by (simp add: module_getattr_def get_random_value_def exec_function_str_def
      py_split_func_guid_x py_split_func_guid_x_1 get_function_func_guid_x
      call_function_def func_guid_def)

section \<open>Properties of the validators\<close>

text \<open>
  C5. \<open>validate_guid\<close> accepts a text that is not of the canonical form: a canonical
  GUID followed by a line break. The \<open>$\<close> of the pattern holds before a final line break.
\<close>

theorem validate_guid_accepts_trailing_newline:
  "validate_guid (PStr (''{54849625-5478-4994-A5BA-3E3B0328C30D}'' @ [newline])) = Inr True"
  by code_simp

section \<open>Properties of the serializer\<close>

lemma application_error_config_valid:
  "validate_windows_event_config application_error_config = Inr ()"
  by code_simp

text \<open>
  C1. The configuration \<open>application_error_config\<close> passes the full validation, and the
  serializer then raises \<open>TypeError\<close>: the literal \<open>Application Error\<close> has two tokens, the
  constant function that \<open>get_function\<close> returns for a literal is called with the second
  token as an argument, and \<open>get_random_value\<close> catches \<open>ValueError\<close> and \<open>IndexError\<close>
  only.
\<close>

theorem serializer_raises_on_validated_config:
  "validate_windows_event_config application_error_config = Inr () \<and>
   fst (get_windows_event_log application_error_config w) = Inl TypeError"
  unfolding get_windows_event_log_def application_error_config_valid
  by (simp add: application_error_config_def py_getitem_def py_items_def
      get_random_value_def exec_function_str_def py_split_application_error get_function_def
      py_startswith_def call_function_def)

section \<open>Properties of the descriptor validator\<close>

lemma and_then_Inr: "and_then m f = Inr y \<longleftrightarrow> (\<exists>x. m = Inr x \<and> f x = Inr y)"
  by (cases m) simp_all

lemma missing_in_dict_present:
  "set fs \<subseteq> fst ` set d \<Longrightarrow> missing_in (PDict d) fs = Inr []"
  by (induction fs) (auto simp: py_contains_def)

lemma py_getitem_dict: "map_of d k = Some v \<Longrightarrow> py_getitem (PDict d) k = Inr v"
  by (simp add: py_getitem_def)

lemma map_of_key: "map_of d k = Some v \<Longrightarrow> k \<in> fst ` set d"
  by (metis domI dom_map_of_conv_image_fst)

lemma rewrap_ranges:
  "rewrap_value_type p (check_descriptor_ranges e) = check_descriptor_ranges e"
  by (simp add: rewrap_value_type_def check_descriptor_ranges_def)

lemma rewrap_Inr: "rewrap_value_type p r = Inr y \<longleftrightarrow> r = Inr y"
  by (auto simp: rewrap_value_type_def split: sum.splits exn.splits)

lemma check_descriptor_ranges_Inr: "check_descriptor_ranges e = Inr e' \<Longrightarrow> e' = e"
  by (auto simp: check_descriptor_ranges_def split: if_splits)

lemma validate_event_descriptor_converted:
  assumes "map_of d ''Id'' = Some vi" "py_int vi = Inr i"
    and "map_of d ''Version'' = Some vv" "py_int vv = Inr v"
    and "map_of d ''Channel'' = Some vc" "py_int vc = Inr c"
    and "map_of d ''Level'' = Some vl" "py_int vl = Inr l"
    and "map_of d ''Opcode'' = Some vo" "py_int vo = Inr opc"
    and "map_of d ''Task'' = Some vt" "py_int vt = Inr t"
    and "map_of d ''Keyword'' = Some vk" "convert_keyword vk = Inr k"
  shows "validate_event_descriptor (PDict d) =
     check_descriptor_ranges
       \<lparr>Id_field = i, Version = v, Channel = c, Level = l, Opcode = opc, Task = t, Keyword = k\<rparr>"
proof -
  have "set required_descriptor_fields \<subseteq> fst ` set d"
    using assms by (auto simp: required_descriptor_fields_def dest: map_of_key)
  then have m: "missing_in (PDict d) required_descriptor_fields = Inr []"
    by (rule missing_in_dict_present)
  show ?thesis
    unfolding validate_event_descriptor_def m
    using assms by (simp add: py_getitem_dict rewrap_ranges)
qed

lemma convert_keyword_scenario:
  "convert_keyword (PStr ''0x8020000000000000'') = Inr 9232379236109516800"
  by code_simp

text \<open>
  C2, as the code has it. For a descriptor that holds all seven fields, each of which
  converts, the validator checks Level against 0..15, then Opcode against 0..240, then
  Task against 0, and fails at the first of them that is out of range with an error that
  names the field, its range and the value; a negative Level or Opcode is out of range
  too. When all three are in range it returns the descriptor made of the seven converted
  values.
\<close>

theorem validate_event_descriptor_ranges:
  assumes "map_of d ''Id'' = Some vi" "py_int vi = Inr i"
    and "map_of d ''Version'' = Some vv" "py_int vv = Inr v"
    and "map_of d ''Channel'' = Some vc" "py_int vc = Inr c"
    and "map_of d ''Level'' = Some vl" "py_int vl = Inr l"
    and "map_of d ''Opcode'' = Some vo" "py_int vo = Inr opc"
    and "map_of d ''Task'' = Some vt" "py_int vt = Inr t"
    and "map_of d ''Keyword'' = Some vk" "convert_keyword vk = Inr k"
  shows "validate_event_descriptor (PDict d) =
     (if \<not> (0 \<le> l \<and> l \<le> 15)
      then raise_validation (''Level must be between 0 and 15, got '' @ py_str_int l)
      else if \<not> (0 \<le> opc \<and> opc \<le> 240)
      then raise_validation (''Opcode must be between 0 and 240, got '' @ py_str_int opc)
      else if t < 0
      then raise_validation (''Task must be non-negative, got '' @ py_str_int t)
      else Inr \<lparr>Id_field = i, Version = v, Channel = c, Level = l, Opcode = opc, Task = t,
                Keyword = k\<rparr>)"
  unfolding validate_event_descriptor_converted [OF assms]
  by (simp add: check_descriptor_ranges_def)

theorem validate_event_descriptor_ranges_witness:
  "validate_event_descriptor (PDict
     [(''Id'', PInt 4624), (''Version'', PInt 0), (''Channel'', PInt 2), (''Level'', PInt 0),
      (''Opcode'', PInt 0), (''Task'', PInt 12544), (''Keyword'', PStr ''0x8020000000000000'')]) =
   Inr \<lparr>Id_field = 4624, Version = 0, Channel = 2, Level = 0, Opcode = 0, Task = 12544,
        Keyword = 9232379236109516800\<rparr>"
  using validate_event_descriptor_ranges
    [of "[(''Id'', PInt 4624), (''Version'', PInt 0), (''Channel'', PInt 2), (''Level'', PInt 0),
          (''Opcode'', PInt 0), (''Task'', PInt 12544),
          (''Keyword'', PStr ''0x8020000000000000'')]"
        "PInt 4624" 4624 "PInt 0" 0 "PInt 2" 2 "PInt 0" 0 "PInt 0" 0 "PInt 12544" 12544
        "PStr ''0x8020000000000000''" 9232379236109516800]
  by (simp add: py_int_def convert_keyword_scenario)

text \<open>
  A descriptor whose converted values satisfy Level \<open>\<le>\<close> 15, Opcode \<open>\<le>\<close> 240 and
  Task \<open>\<ge>\<close> 0 and that is rejected all the same: its Level is negative.
\<close>

theorem validate_event_descriptor_negative_level:
  "py_int (PInt (- 1)) = Inr (- 1) \<and> (- 1 :: int) \<le> 15 \<and>
   validate_event_descriptor (PDict
     [(''Id'', PInt 4624), (''Version'', PInt 0), (''Channel'', PInt 2), (''Level'', PInt (- 1)),
      (''Opcode'', PInt 0), (''Task'', PInt 12544), (''Keyword'', PStr ''0x8020000000000000'')]) =
   raise_validation ''Level must be between 0 and 15, got -1''"
  by code_simp

subsection \<open>The Keyword field\<close>

lemma hex_digit_table:
  "list_all (\<lambda>c. digit_in 16 c = Some (nat (hex_digit_reading c)) \<and> 0 \<le> hex_digit_reading c \<and>
      c \<noteq> CHR ''_'' \<and> \<not> int_isspace c \<and> c \<noteq> CHR ''x'' \<and> c \<noteq> CHR ''X'' \<and>
      c \<noteq> CHR ''-'' \<and> c \<noteq> CHR ''+'')
     ''0123456789abcdefABCDEF''"
  by code_simp

lemma hex_digit_facts:
  assumes "hex_digit c"
  shows "digit_in 16 c = Some (nat (hex_digit_reading c))" "0 \<le> hex_digit_reading c"
    "c \<noteq> CHR ''_''" "\<not> int_isspace c" "c \<noteq> CHR ''x''" "c \<noteq> CHR ''X''"
    "c \<noteq> CHR ''-''" "c \<noteq> CHR ''+''"
  using assms hex_digit_table unfolding hex_digit_def list_all_iff by blast+

lemma digits_acc_hex:
  "list_all hex_digit ds \<Longrightarrow>
   digits_acc 16 acc ds = Some (foldl (\<lambda>a c. a * 16 + hex_digit_reading c) acc ds)"
  by (induction ds arbitrary: acc) (simp_all add: hex_digit_facts)

lemma parse_digits_hex:
  "ds \<noteq> [] \<Longrightarrow> list_all hex_digit ds \<Longrightarrow> parse_digits 16 ds = Some (hexadecimal_reading ds)"
  by (cases ds)
    (simp_all add: parse_digits_def hexadecimal_reading_def hex_digit_facts digits_acc_hex)

lemma py_strip_no_space:
  assumes "list_all (\<lambda>c. \<not> int_isspace c) s"
  shows "py_strip s = s"
proof -
  have d: "dropWhile int_isspace t = t" if "list_all (\<lambda>c. \<not> int_isspace c) t" for t
    using that by (cases t) simp_all
  from assms have "list_all (\<lambda>c. \<not> int_isspace c) (rev s)"
    by (simp add: list_all_iff)
  with assms d show ?thesis by (simp add: py_strip_def)
qed

lemma hex_no_space: "list_all hex_digit ds \<Longrightarrow> list_all (\<lambda>c. \<not> int_isspace c) ds"
  by (induction ds) (simp_all add: hex_digit_facts)

lemma py_int_text_unsigned:
  assumes "py_strip s = s" and "s = c # cs" and "c \<noteq> CHR ''-''" and "c \<noteq> CHR ''+''"
    and "parse_digits 16 (skip_hex_prefix s) = Some n"
  shows "py_int_text s 16 = Inr n"
proof -
  have "py_strip (c # cs) = c # cs" using assms(1,2) by simp
  then show ?thesis using assms(2-5) by (simp add: py_int_text_def Let_def)
qed

lemma py_int_text_hex:
  assumes "ds \<noteq> []" "list_all hex_digit ds"
  shows "py_int_text ds 16 = Inr (hexadecimal_reading ds)"
proof -
  obtain c cs where ds: "ds = c # cs" using assms(1) by (cases ds) auto
  have c: "hex_digit c" using assms(2) ds by simp
  have s: "py_strip ds = ds" using assms(2) by (simp add: py_strip_no_space hex_no_space)
  have p: "skip_hex_prefix ds = ds"
  proof (cases cs)
    case Nil
    then show ?thesis by (simp add: skip_hex_prefix_def ds)
  next
    case (Cons c1 rest)
    then have "hex_digit c1" using assms(2) ds by simp
    then show ?thesis using Cons by (simp add: skip_hex_prefix_def ds hex_digit_facts)
  qed
  have "parse_digits 16 (skip_hex_prefix ds) = Some (hexadecimal_reading ds)"
    unfolding p using assms by (rule parse_digits_hex)
  with s ds c show ?thesis
    by (intro py_int_text_unsigned [where c = c and cs = cs]) (simp_all add: hex_digit_facts)
qed

lemma py_int_text_0x_hex:
  assumes "ds \<noteq> []" "list_all hex_digit ds"
  shows "py_int_text (''0x'' @ ds) 16 = Inr (hexadecimal_reading ds)"
proof -
  obtain c cs where ds: "ds = c # cs" using assms(1) by (cases ds) auto
  have c: "hex_digit c" using assms(2) ds by simp
  have z: "\<not> int_isspace (CHR ''0'')" "\<not> int_isspace (CHR ''x'')"
    by (simp_all add: int_isspace_def code_def)
  have "list_all (\<lambda>c. \<not> int_isspace c) (''0x'' @ ds)"
    using hex_no_space [OF assms(2)] z by simp
  then have s: "py_strip (''0x'' @ ds) = ''0x'' @ ds" by (rule py_strip_no_space)
  have p: "skip_hex_prefix (''0x'' @ ds) = ds"
    using c by (simp add: skip_hex_prefix_def ds hex_digit_facts)
  have "parse_digits 16 (skip_hex_prefix (''0x'' @ ds)) = Some (hexadecimal_reading ds)"
    unfolding p using assms by (rule parse_digits_hex)
  with s show ?thesis
    by (intro py_int_text_unsigned [where c = "CHR ''0''" and cs = "CHR ''x'' # ds"]) simp_all
qed

lemma validate_event_descriptor_keyword:
  assumes "validate_event_descriptor (PDict d) = Inr e" and "map_of d ''Keyword'' = Some vk"
  shows "convert_keyword vk = Inr (Keyword e)"
proof -
  have g: "py_getitem (PDict d) ''Keyword'' = Inr vk"
    using assms(2) by (simp add: py_getitem_def)
  from assms(1) obtain i v c l opc t k where
    k: "convert_keyword vk = Inr k" and
    r: "check_descriptor_ranges
          \<lparr>Id_field = i, Version = v, Channel = c, Level = l, Opcode = opc, Task = t,
           Keyword = k\<rparr> = Inr e"
    unfolding validate_event_descriptor_def rewrap_Inr and_then_Inr g
    by (auto simp: and_then_Inr split: if_splits)
  from check_descriptor_ranges_Inr [OF r] k show ?thesis by simp
qed

lemma scenario_descriptor_valid:
  "validate_event_descriptor (PDict
     [(''Id'', PInt 4624), (''Version'', PInt 0), (''Channel'', PInt 2), (''Level'', PInt 0),
      (''Opcode'', PInt 0), (''Task'', PInt 12544), (''Keyword'', PStr ''0x8020000000000000'')]) =
   Inr \<lparr>Id_field = 4624, Version = 0, Channel = 2, Level = 0, Opcode = 0, Task = 12544,
        Keyword = 9232379236109516800\<rparr>"
  by code_simp

text \<open>
  C6, as the code has it. A Keyword that is not a text goes through \<open>int\<close>, so an integer
  is kept as it is. A Keyword that is a text is always read in base 16, with or without
  the prefix: a text of hexadecimal digits (decimal digits among them) yields its
  hexadecimal reading, and so does \<open>0x\<close> followed by such digits. The descriptor that
  the validator returns carries the value of this conversion.
\<close>

theorem keyword_conversion:
  "convert_keyword (PInt n) = Inr n \<and>
   (ds \<noteq> [] \<and> list_all hex_digit ds \<longrightarrow>
      convert_keyword (PStr ds) = Inr (hexadecimal_reading ds) \<and>
      convert_keyword (PStr (''0x'' @ ds)) = Inr (hexadecimal_reading ds)) \<and>
   (validate_event_descriptor (PDict d) = Inr e \<and> map_of d ''Keyword'' = Some vk \<longrightarrow>
      convert_keyword vk = Inr (Keyword e))"
  using validate_event_descriptor_keyword [of d e vk]
  by (simp add: convert_keyword_def py_int_def py_int_text_hex py_int_text_0x_hex [simplified])

theorem keyword_conversion_witness:
  "convert_keyword (PInt 32) = Inr 32 \<and>
   convert_keyword (PStr ''1F'') = Inr 31 \<and>
   convert_keyword (PStr ''0x1F'') = Inr 31 \<and>
   convert_keyword (PStr ''0x8020000000000000'') = Inr 9232379236109516800"
  using keyword_conversion
    [of 32 "''1F''"
        "[(''Id'', PInt 4624), (''Version'', PInt 0), (''Channel'', PInt 2), (''Level'', PInt 0),
          (''Opcode'', PInt 0), (''Task'', PInt 12544),
          (''Keyword'', PStr ''0x8020000000000000'')]"
        "\<lparr>Id_field = 4624, Version = 0, Channel = 2, Level = 0, Opcode = 0, Task = 12544,
          Keyword = 9232379236109516800\<rparr>"
        "PStr ''0x8020000000000000''"]
  by (simp add: scenario_descriptor_valid hex_digit_def hexadecimal_reading_def
      hex_digit_reading_def code_def)

text \<open>
  The text \<open>10\<close> consists of decimal digits and has no prefix; its decimal reading is 10,
  and the descriptor carries 16.
\<close>

theorem keyword_decimal_text_read_in_base_16:
  "decimal_reading ''10'' = 10 \<and>
   validate_event_descriptor (PDict
     [(''Id'', PInt 4624), (''Version'', PInt 0), (''Channel'', PInt 2), (''Level'', PInt 0),
      (''Opcode'', PInt 0), (''Task'', PInt 12544), (''Keyword'', PStr ''10'')]) =
   Inr \<lparr>Id_field = 4624, Version = 0, Channel = 2, Level = 0, Opcode = 0, Task = 12544,
        Keyword = 16\<rparr>"
  by code_simp

section \<open>Properties of the full validation\<close>

lemma and_then_Inl:
  "and_then m f = Inl e \<longleftrightarrow> m = Inl e \<or> (\<exists>x. m = Inr x \<and> f x = Inl e)"
  by (cases m) auto

lemma py_contains_no_validation [simp]:
  "py_contains x k \<noteq> Inl (WindowsEventValidationError m)"
  by (simp add: py_contains_def split: pyval.splits)

lemma py_getitem_no_validation [simp]:
  "py_getitem x k \<noteq> Inl (WindowsEventValidationError m)"
  by (simp add: py_getitem_def split: pyval.splits option.splits)

lemma py_get_no_validation [simp]:
  "py_get x k z \<noteq> Inl (WindowsEventValidationError m)"
  by (simp add: py_get_def split: pyval.splits option.splits)

lemma py_iter_no_validation [simp]:
  "py_iter x \<noteq> Inl (WindowsEventValidationError m)"
  by (simp add: py_iter_def split: pyval.splits)

lemma re_match_no_validation [simp]:
  "re_match p x \<noteq> Inl (WindowsEventValidationError m)"
  by (simp add: re_match_def split: pyval.splits)

lemma index_by_name_no_validation [simp]:
  "index_by_name acc items \<noteq> Inl (WindowsEventValidationError m)"
  by (induction items arbitrary: acc) (auto simp: and_then_Inl)

lemma check_field_types_no_validation [simp]:
  "check_field_types template entries \<noteq> Inl (WindowsEventValidationError m)"
  by (induction entries) (auto simp: and_then_Inl split: pyval.splits option.splits)

lemma validate_security_event_no_validation [simp]:
  "validate_security_event event_id data \<noteq> Inl (WindowsEventValidationError m)"
  by (auto simp: validate_security_event_def and_then_Inl Let_def split: option.splits if_splits)

lemma prefixed_Message: "prefixed p m = Message t \<Longrightarrow> \<exists>u. t = p @ u"
  by (cases m) auto

lemma validate_security_event_data_not_channel:
  "validate_security_event_data event_data event_id \<noteq> raise_validation (CHR ''C'' # t)"
  by (auto simp: validate_security_event_data_def split: sum.splits exn.splits if_splits
      dest!: prefixed_Message)

lemma check_security_event_not_channel:
  "check_security_event event descriptor \<noteq> raise_validation (CHR ''C'' # t)"
  by (auto simp: check_security_event_def and_then_Inl validate_security_event_data_not_channel
      split: if_splits)

lemma validate_rendering_info_not_channel:
  "validate_rendering_info rendering \<noteq> raise_validation (CHR ''C'' # t)"
  by (auto simp: validate_rendering_info_def and_then_Inl split: if_splits pyval.splits)

lemma check_rendering_info_not_channel:
  "check_rendering_info event \<noteq> raise_validation (CHR ''C'' # t)"
  by (auto simp: check_rendering_info_def and_then_Inl validate_rendering_info_not_channel
      split: if_splits)

lemma check_data_entry_not_channel:
  "check_data_entry data \<noteq> raise_validation (CHR ''C'' # t)"
  by (auto simp: check_data_entry_def and_then_Inl Let_def split: if_splits)

lemma check_data_entries_not_channel:
  "check_data_entries xs \<noteq> raise_validation (CHR ''C'' # t)"
  by (induction xs) (auto simp: and_then_Inl check_data_entry_not_channel)

lemma validate_event_data_not_channel:
  "validate_event_data event_data \<noteq> raise_validation (CHR ''C'' # t)"
  by (auto simp: validate_event_data_def and_then_Inl check_data_entries_not_channel
      split: if_splits pyval.splits)

lemma check_event_data_not_channel:
  "check_event_data event \<noteq> raise_validation (CHR ''C'' # t)"
  by (auto simp: check_event_data_def and_then_Inl validate_event_data_not_channel
      split: if_splits)


lemma py_contains_dict: "py_contains (PDict d) k = Inr (k \<in> fst ` set d)"
  by (simp add: py_contains_def)

lemma check_channel_standard:
  assumes "map_of sys ''Channel'' = Some (PStr name)"
    and "map_of STANDARD_CHANNELS name = Some cid"
    and "map_of dd ''Channel'' = Some ch"
  shows "check_channel (PDict sys) (PDict dd) =
     (if \<not> py_eq_int ch cid then raise_validation (''Channel ID mismatch for '' @ name)
      else Inr ())"
  using assms map_of_key [OF assms(1)]
  by (simp add: check_channel_def py_contains_dict py_getitem_dict standard_channel_id_def
      py_hashable_def py_str_def)

lemma later_checks_not_channel:
  "and_then (check_security_event event descriptor) (\<lambda>_.
     and_then (check_rendering_info event) (\<lambda>_. check_event_data event)) \<noteq>
   raise_validation (CHR ''C'' # t)"
  by (simp add: and_then_Inl check_security_event_not_channel check_rendering_info_not_channel
      check_event_data_not_channel)

lemma validate_windows_event_config_from_channel:
  assumes "map_of cfg ''template'' = Some (PDict tmpl)"
    and "''message'' \<in> fst ` set tmpl" and "''values'' \<in> fst ` set tmpl"
    and "map_of cfg ''Event'' = Some (PDict ev)"
    and "map_of ev ''System'' = Some system"
    and "validate_system_properties system = Inr ()"
    and "map_of cfg ''event_descriptor'' = Some descriptor"
    and "validate_event_descriptor descriptor = Inr desc"
  shows "validate_windows_event_config (PDict cfg) =
     and_then (check_channel system descriptor) (\<lambda>_.
     and_then (check_security_event (PDict ev) descriptor) (\<lambda>_.
     and_then (check_rendering_info (PDict ev)) (\<lambda>_. check_event_data (PDict ev))))"
proof -
  have "set [''event_descriptor'', ''template'', ''Event''] \<subseteq> fst ` set cfg"
    using assms(1,4,7) by (auto dest: map_of_key)
  then have m: "missing_in (PDict cfg) [''event_descriptor'', ''template'', ''Event''] = Inr []"
    by (rule missing_in_dict_present)
  have s: "''System'' \<in> fst ` set ev" using assms(5) by (rule map_of_key)
  show ?thesis
    unfolding validate_windows_event_config_def m
    using assms s by (simp add: py_getitem_dict py_contains_dict is_dict_def)
qed

lemma logon_system_valid: "validate_system_properties (PDict logon_system) = Inr ()"
  by code_simp

lemma logon_descriptor_3_valid:
  "validate_event_descriptor (PDict (logon_descriptor 3 0)) =
   Inr \<lparr>Id_field = 4624, Version = 0, Channel = 3, Level = 0, Opcode = 0, Task = 12544,
        Keyword = 9232379236109516800\<rparr>"
  by code_simp

text \<open>
  C4, as the code has it. The cross-check is reached only by a configuration that has
  passed the checks before it: the top-level keys, the template, the \<open>System\<close> element and
  the descriptor. For such a configuration whose \<open>System.Channel\<close> is a standard channel
  name, the full validation fails with the channel-mismatch error if and only if the
  Channel value of the descriptor differs from the table entry of that name.
\<close>

theorem channel_cross_check:
  assumes "map_of cfg ''template'' = Some (PDict tmpl)"
    and "''message'' \<in> fst ` set tmpl" and "''values'' \<in> fst ` set tmpl"
    and "map_of cfg ''Event'' = Some (PDict ev)"
    and "map_of ev ''System'' = Some (PDict sys)"
    and "validate_system_properties (PDict sys) = Inr ()"
    and "map_of cfg ''event_descriptor'' = Some (PDict dd)"
    and "validate_event_descriptor (PDict dd) = Inr desc"
    and "map_of sys ''Channel'' = Some (PStr name)"
    and "map_of STANDARD_CHANNELS name = Some cid"
    and "map_of dd ''Channel'' = Some ch"
  shows "validate_windows_event_config (PDict cfg) =
           raise_validation (''Channel ID mismatch for '' @ name) \<longleftrightarrow>
         \<not> py_eq_int ch cid"
proof -
  have c: "''Channel ID mismatch for '' @ name = CHR ''C'' # (''hannel ID mismatch for '' @ name)"
    by simp
  show ?thesis
    unfolding validate_windows_event_config_from_channel [OF assms(1-8)]
      check_channel_standard [OF assms(9-11)] c
    using later_checks_not_channel [of "PDict ev" "PDict dd" "''hannel ID mismatch for '' @ name"]
    by (cases "py_eq_int ch cid") simp_all
qed

text \<open>Scenario B: \<open>System.Channel\<close> is \<open>Security\<close> and the descriptor has channel 3.\<close>

theorem channel_cross_check_witness:
  "validate_windows_event_config (PDict (logon_config (logon_descriptor 3 0) logon_entries)) =
   raise_validation ''Channel ID mismatch for Security''"
  using channel_cross_check
    [of "logon_config (logon_descriptor 3 0) logon_entries" logon_template
        "logon_event logon_entries" logon_system "logon_descriptor 3 0"
        "\<lparr>Id_field = 4624, Version = 0, Channel = 3, Level = 0, Opcode = 0, Task = 12544,
          Keyword = 9232379236109516800\<rparr>"
        "''Security''" 2 "PInt 3"]
  by (simp add: logon_config_def logon_template_def logon_event_def logon_system_valid
      logon_descriptor_3_valid STANDARD_CHANNELS_def py_eq_int_def)
    (simp add: logon_system_def logon_descriptor_def)

text \<open>
  A configuration whose \<open>System.Channel\<close> is \<open>Security\<close> and whose descriptor has
  channel 3, and that does not fail with the channel-mismatch error: the Level of the
  descriptor is out of range, which is reported first.
\<close>

theorem channel_mismatch_hidden_by_earlier_check:
  "map_of logon_system ''Channel'' = Some (PStr ''Security'') \<and>
   map_of (logon_descriptor 3 16) ''Channel'' = Some (PInt 3) \<and>
   map_of STANDARD_CHANNELS ''Security'' = Some 2 \<and>
   validate_windows_event_config (PDict (logon_config (logon_descriptor 3 16) logon_entries)) =
   raise_validation ''Level must be between 0 and 15, got 16''"
  by code_simp

section \<open>Properties of the security template validator\<close>

lemma py_key_eq_refl: "py_key_eq a a"
  by (cases a) (simp_all add: py_key_eq_def py_eq_int_def)

lemma py_key_eq_PStr: "py_key_eq a (PStr n) \<longleftrightarrow> a = PStr n"
  by (cases a) (auto simp: py_key_eq_def py_eq_int_def)

lemma py_key_eq_PStr_left: "py_key_eq (PStr n) b \<longleftrightarrow> b = PStr n"
  by (auto simp: py_key_eq_def)

lemma map_of_dict_set:
  "map_of (dict_set acc k v) (PStr n) = (if k = PStr n then Some v else map_of acc (PStr n))"
  by (induction acc) (auto simp: py_key_eq_PStr py_key_eq_PStr_left)

lemma keys_dict_set:
  "fst ` set (dict_set acc k v) = (if list_ex (\<lambda>kv. py_key_eq (fst kv) k) acc then fst ` set acc else insert k (fst ` set acc))"
  by (induction acc) auto

lemma distinct_dict_set:
  "distinct (map fst acc) \<Longrightarrow> distinct (map fst (dict_set acc k v))"
proof (induction acc)
  case Nil
  then show ?case by simp
next
  case (Cons kv acc)
  show ?case
  proof (cases "py_key_eq (fst kv) k")
    case True
    with Cons.prems show ?thesis by simp
  next
    case False
    have "fst kv \<notin> fst ` set (dict_set acc k v)"
      using Cons.prems False py_key_eq_refl [of k]
      by (auto simp: keys_dict_set split: if_splits)
    with Cons False show ?thesis by simp
  qed
qed

lemma values_dict_set: "snd ` set (dict_set acc k v) \<subseteq> insert v (snd ` set acc)"
  by (induction acc) auto

lemma has_hashable_name_dict: "has_hashable_name item \<Longrightarrow> is_dict item"
  by (cases item) (simp_all add: has_hashable_name_def py_getitem_def is_dict_def)

lemma index_by_name_result:
  assumes "list_all has_hashable_name xs" and "distinct (map fst acc)"
    and "\<forall>v \<in> snd ` set acc. is_dict v"
  shows "\<exists>df. index_by_name acc xs = Inr df \<and> distinct (map fst df) \<and>
           (\<forall>v \<in> snd ` set df. is_dict v) \<and>
           (\<forall>n. map_of df (PStr n) =
                 (case last_named n xs of Some item \<Rightarrow> Some item | None \<Rightarrow> map_of acc (PStr n)))"
  using assms
proof (induction xs arbitrary: acc)
  case Nil
  then show ?case by simp
next
  case (Cons x xs)
  from Cons.prems(1) have hx: "has_hashable_name x" and hxs: "list_all has_hashable_name xs"
    by simp_all
  from hx obtain name where name: "py_getitem x ''Name'' = Inr name" "py_hashable name"
    by (auto simp: has_hashable_name_def split: sum.splits)
  let ?acc = "dict_set acc name x"
  have d: "distinct (map fst ?acc)" using Cons.prems(2) by (rule distinct_dict_set)
  have v: "\<forall>v \<in> snd ` set ?acc. is_dict v"
    using values_dict_set [of acc name x] Cons.prems(3) has_hashable_name_dict [OF hx] by blast
  from Cons.IH [OF hxs d v] obtain df where df: "index_by_name ?acc xs = Inr df"
    "distinct (map fst df)" "\<forall>v \<in> snd ` set df. is_dict v"
    "\<forall>n. map_of df (PStr n) =
          (case last_named n xs of Some item \<Rightarrow> Some item | None \<Rightarrow> map_of ?acc (PStr n))"
    by blast
  have "index_by_name acc (x # xs) = Inr df" using name df(1) by simp
  moreover have "map_of df (PStr n) =
      (case last_named n (x # xs) of Some item \<Rightarrow> Some item | None \<Rightarrow> map_of acc (PStr n))" for n
    using df(4) name(1) by (auto simp: map_of_dict_set named_def split: option.splits)
  ultimately show ?case using df(2,3) by blast
qed

lemma last_named_ex: "last_named n xs \<noteq> None \<longleftrightarrow> list_ex (named n) xs"
  by (induction xs) (auto split: option.splits)

lemma dict_has_key_PStr:
  "dict_has_key df (PStr n) \<longleftrightarrow> map_of df (PStr n) \<noteq> None"
  by (induction df) (auto simp: dict_has_key_def py_key_eq_PStr)

lemma py_get_dict: "is_dict item \<Longrightarrow> \<exists>actual. py_get item k z = Inr actual"
  by (cases item) (simp_all add: is_dict_def py_get_def split: option.splits)

lemma check_field_types_undeclared:
  "(\<And>n. k = PStr n \<Longrightarrow> map_of (field_types T) n = None) \<Longrightarrow>
   check_field_types T ((k, item) # df) = check_field_types T df"
  by (cases k) (simp_all split: option.splits)

lemma check_field_types_declared:
  "map_of (field_types T) n = Some t \<Longrightarrow> py_get item ''Type'' PNone = Inr actual \<Longrightarrow>
   check_field_types T ((PStr n, item) # df) =
     (if actual \<noteq> PStr t
      then Inl (ValueError (Message
             (''Invalid type for field '' @ n @ ''. Expected '' @ t @ '', got '' @ py_str actual)))
      else check_field_types T df)"
  by (simp add: py_eq_str_def)

lemma check_field_types_pass:
  assumes "\<forall>v \<in> snd ` set df. is_dict v"
  shows "check_field_types T df = Inr () \<longleftrightarrow>
     (\<forall>n t item. (PStr n, item) \<in> set df \<and> map_of (field_types T) n = Some t \<longrightarrow>
        py_get item ''Type'' PNone = Inr (PStr t))"
  using assms
proof (induction df)
  case Nil
  then show ?case by simp
next
  case (Cons kv df)
  obtain k item where kv: "kv = (k, item)" by (cases kv)
  from Cons.prems have "is_dict item" by (simp add: kv)
  then obtain actual where a: "py_get item ''Type'' PNone = Inr actual"
    using py_get_dict by blast
  from Cons have IH: "check_field_types T df = Inr () \<longleftrightarrow>
     (\<forall>n t item. (PStr n, item) \<in> set df \<and> map_of (field_types T) n = Some t \<longrightarrow>
        py_get item ''Type'' PNone = Inr (PStr t))" by simp
  show ?case
  proof (cases "\<exists>n t. k = PStr n \<and> map_of (field_types T) n = Some t")
    case True
    then obtain n t where nt: "k = PStr n" "map_of (field_types T) n = Some t" by blast
    show ?thesis
    proof (cases "actual = PStr t")
      case True
      have e: "check_field_types T (kv # df) = check_field_types T df"
        unfolding kv nt(1) check_field_types_declared [OF nt(2) a] using True by simp
      have h: "py_get item ''Type'' PNone = Inr (PStr t')"
        if "map_of (field_types T) n = Some t'" for t'
        using that a nt(2) True by simp
      show ?thesis
        unfolding e IH unfolding kv nt(1) using h by auto
    next
      case False
      have "\<not> (\<forall>n' t' item'. (PStr n', item') \<in> set ((PStr n, item) # df) \<and>
                map_of (field_types T) n' = Some t' \<longrightarrow>
              py_get item' ''Type'' PNone = Inr (PStr t'))"
      proof
        assume "\<forall>n' t' item'. (PStr n', item') \<in> set ((PStr n, item) # df) \<and>
                map_of (field_types T) n' = Some t' \<longrightarrow>
              py_get item' ''Type'' PNone = Inr (PStr t')"
        then have "py_get item ''Type'' PNone = Inr (PStr t)" using nt(2) by auto
        with a False show False by simp
      qed
      with False show ?thesis
        unfolding kv nt(1) check_field_types_declared [OF nt(2) a] by simp
    qed
  next
    case False
    then have u: "\<And>n. k = PStr n \<Longrightarrow> map_of (field_types T) n = None" by auto
    have e: "check_field_types T ((k, item) # df) = check_field_types T df"
      by (rule check_field_types_undeclared) (rule u)
    show ?thesis
      unfolding kv e IH using False by auto
  qed
qed

lemma check_field_types_fail:
  assumes "\<forall>v \<in> snd ` set df. is_dict v" and "check_field_types T df = Inl e"
  shows "\<exists>n t item actual. (PStr n, item) \<in> set df \<and> map_of (field_types T) n = Some t \<and>
           py_get item ''Type'' PNone = Inr actual \<and> actual \<noteq> PStr t \<and>
           e = ValueError (Message
                 (''Invalid type for field '' @ n @ ''. Expected '' @ t @ '', got '' @
                  py_str actual))"
  using assms
proof (induction df)
  case Nil
  then show ?case by simp
next
  case (Cons kv df)
  obtain k item where kv: "kv = (k, item)" by (cases kv)
  from Cons.prems have "is_dict item" by (simp add: kv)
  then obtain actual where a: "py_get item ''Type'' PNone = Inr actual"
    using py_get_dict by blast
  from Cons.prems have d: "\<forall>v \<in> snd ` set df. is_dict v" by simp
  show ?case
  proof (cases "check_field_types T df = Inl e")
    case True
    from Cons.IH [OF d True] obtain n t item' actual' where
      "(PStr n, item') \<in> set df" "map_of (field_types T) n = Some t"
      "py_get item' ''Type'' PNone = Inr actual'" "actual' \<noteq> PStr t"
      "e = ValueError (Message
             (''Invalid type for field '' @ n @ ''. Expected '' @ t @ '', got '' @ py_str actual'))"
      by blast
    then show ?thesis by (intro exI [of _ n] exI [of _ t] exI [of _ item'] exI [of _ actual']) simp
  next
    case False
    have "\<exists>n t. k = PStr n \<and> map_of (field_types T) n = Some t"
    proof (rule ccontr)
      assume "\<not> ?thesis"
      then have "\<And>n. k = PStr n \<Longrightarrow> map_of (field_types T) n = None" by auto
      then have "check_field_types T ((k, item) # df) = check_field_types T df"
        by (intro check_field_types_undeclared)
      with Cons.prems(2) False show False
        unfolding kv by simp
    qed
    then obtain n t where nt: "k = PStr n" "map_of (field_types T) n = Some t" by blast
    from Cons.prems(2) False have
      "actual \<noteq> PStr t \<and> e = ValueError (Message
         (''Invalid type for field '' @ n @ ''. Expected '' @ t @ '', got '' @ py_str actual))"
      unfolding kv nt(1) check_field_types_declared [OF nt(2) a]
      by (cases "actual = PStr t") auto
    with a nt show ?thesis
      by (intro exI [of _ n] exI [of _ t] exI [of _ item] exI [of _ actual]) (simp add: kv)
  qed
qed


lemma SecurityEventID_of_4624: "SecurityEventID_of (PInt 4624) = Some LOGON_SUCCESS"
  by code_simp

lemma py_str_4624: "py_str (PInt 4624) = ''4624''"
  by code_simp

lemma text_keys_dict_set:
  "text_keys (dict_set acc k v) =
     (case k of
        PStr n \<Rightarrow> (if n \<in> set (text_keys acc) then text_keys acc else text_keys acc @ [n])
      | _ \<Rightarrow> text_keys acc)"
proof (induction acc)
  case Nil
  then show ?case by (simp add: text_keys_def split: pyval.splits)
next
  case (Cons kv acc)
  show ?case
  proof (cases "py_key_eq (fst kv) k")
    case True
    then show ?thesis
      by (cases k; cases "fst kv") (auto simp: text_keys_def py_key_eq_def py_eq_int_def)
  next
    case False
    then show ?thesis
      using Cons
      by (cases k; cases "fst kv") (auto simp: text_keys_def py_key_eq_def py_eq_int_def)
  qed
qed

lemma text_keys_index_by_name:
  "index_by_name acc xs = Inr df \<Longrightarrow>
   text_keys df = text_keys acc @ filter (\<lambda>n. n \<notin> set (text_keys acc)) (text_names xs)"
proof (induction xs arbitrary: acc)
  case Nil
  then show ?case by (simp add: text_names_def)
next
  case (Cons x xs)
  from Cons.prems obtain name where name: "py_getitem x ''Name'' = Inr name"
    and r: "index_by_name (dict_set acc name x) xs = Inr df"
    by (auto simp: and_then_Inr split: if_splits)
  note IH = Cons.IH [OF r]
  show ?case
  proof (cases "\<exists>n. name = PStr n")
    case True
    then obtain n where n: "name = PStr n" by blast
    have t: "text_names (x # xs) = n # filter (\<lambda>m. m \<noteq> n) (text_names xs)"
      using name n by (simp add: text_names_def entry_text_name_def)
    show ?thesis
    proof (cases "n \<in> set (text_keys acc)")
      case True
      then have "filter (\<lambda>m. m \<notin> set (text_keys acc)) (filter (\<lambda>m. m \<noteq> n) (text_names xs)) =
                 filter (\<lambda>m. m \<notin> set (text_keys acc)) (text_names xs)"
        by (auto simp: filter_filter intro: filter_cong)
      with True IH show ?thesis by (simp add: t text_keys_dict_set n)
    next
      case False
      have "filter (\<lambda>m. m \<notin> set (text_keys acc)) (filter (\<lambda>m. m \<noteq> n) (text_names xs)) =
            filter (\<lambda>m. m \<notin> set (text_keys acc @ [n])) (text_names xs)"
        by (auto simp: filter_filter intro: filter_cong)
      with False IH show ?thesis by (simp add: t text_keys_dict_set n)
    qed
  next
    case False
    then have t: "text_names (x # xs) = text_names xs"
      using name by (cases name) (simp_all add: text_names_def entry_text_name_def)
    from False have "text_keys (dict_set acc name x) = text_keys acc"
      by (cases name) (simp_all add: text_keys_dict_set)
    with IH show ?thesis by (simp add: t)
  qed
qed

lemma check_field_types_first_mismatch:
  assumes "\<forall>v \<in> snd ` set df. is_dict v"
    and "\<forall>n item. (PStr n, item) \<in> set df \<longrightarrow> last_named n xs = Some item"
  shows "check_field_types LOGON_SUCCESS_template df =
     (case find (type_mismatch xs) (text_keys df) of
        None \<Rightarrow> Inr ()
      | Some n \<Rightarrow> Inl (ValueError (Message
          (''Invalid type for field '' @ n @ ''. Expected '' @ declared_type n @ '', got '' @
           py_str (actual_type xs n)))))"
  using assms
proof (induction df)
  case Nil
  then show ?case by (simp add: text_keys_def)
next
  case (Cons kv df)
  obtain k item where kv: "kv = (k, item)" by (cases kv)
  from Cons.prems have "is_dict item" by (simp add: kv)
  then obtain actual where a: "py_get item ''Type'' PNone = Inr actual"
    using py_get_dict by blast
  have IH: "check_field_types LOGON_SUCCESS_template df =
     (case find (type_mismatch xs) (text_keys df) of
        None \<Rightarrow> Inr ()
      | Some n \<Rightarrow> Inl (ValueError (Message
          (''Invalid type for field '' @ n @ ''. Expected '' @ declared_type n @ '', got '' @
           py_str (actual_type xs n)))))"
    using Cons by simp
  show ?case
  proof (cases "\<exists>n. k = PStr n")
    case True
    then obtain n where n: "k = PStr n" by blast
    have l: "last_named n xs = Some item" using Cons.prems(2) by (simp add: kv n)
    have at: "actual_type xs n = actual" by (simp add: actual_type_def l a)
    have tk: "text_keys (kv # df) = n # text_keys df" by (simp add: text_keys_def kv n)
    show ?thesis
    proof (cases "map_of (field_types LOGON_SUCCESS_template) n")
      case None
      then have "check_field_types LOGON_SUCCESS_template ((PStr n, item) # df) =
                 check_field_types LOGON_SUCCESS_template df"
        by (intro check_field_types_undeclared) simp
      moreover have "\<not> type_mismatch xs n" by (simp add: type_mismatch_def None)
      ultimately show ?thesis unfolding kv n tk [unfolded kv n] IH by simp
    next
      case (Some t)
      have m: "type_mismatch xs n \<longleftrightarrow> actual \<noteq> PStr t"
        by (simp add: type_mismatch_def Some at)
      have d: "declared_type n = t" by (simp add: declared_type_def Some)
      show ?thesis
        unfolding kv n tk [unfolded kv n] check_field_types_declared [OF Some a] IH
        by (simp add: m d at)
    qed
  next
    case False
    then have u: "\<And>n. k = PStr n \<Longrightarrow> map_of (field_types LOGON_SUCCESS_template) n = None"
      by auto
    have e: "check_field_types LOGON_SUCCESS_template ((k, item) # df) =
             check_field_types LOGON_SUCCESS_template df"
      by (rule check_field_types_undeclared) (rule u)
    have tk: "text_keys ((k, item) # df) = text_keys df"
      using False by (cases k) (simp_all add: text_keys_def)
    show ?thesis unfolding kv e tk IH ..
  qed
qed


lemma validate_security_event_logon:
  assumes "map_of d ''Data'' = Some (PList xs)" and "list_all has_hashable_name xs"
  shows "\<exists>df. distinct (map fst df) \<and> (\<forall>v \<in> snd ` set df. is_dict v) \<and>
           (\<forall>n. map_of df (PStr n) = last_named n xs) \<and> text_keys df = text_names xs \<and>
           validate_security_event (PInt 4624) (PDict d) =
             (if absent_fields xs \<noteq> []
              then Inl (ValueError (Message
                     (''Missing required fields for Security Event 4624: '' @
                      py_repr (PList (map PStr (absent_fields xs))))))
              else check_field_types LOGON_SUCCESS_template df)"
proof -
  from index_by_name_result [OF assms(2), of "[]"] obtain df where
    df: "index_by_name [] xs = Inr df" "distinct (map fst df)" "\<forall>v \<in> snd ` set df. is_dict v"
      and l0: "\<forall>n. map_of df (PStr n) =
                 (case last_named n xs of Some item \<Rightarrow> Some item | None \<Rightarrow> map_of [] (PStr n))"
    by auto
  have l: "map_of df (PStr n) = last_named n xs" for n
    using l0 by (cases "last_named n xs") simp_all
  have o: "text_keys df = text_names xs"
    using text_keys_index_by_name [OF df(1)] by (simp add: text_keys_def)
  have f: "(if py_truthy (PList xs) then and_then (py_iter (PList xs)) (index_by_name [])
            else Inr []) = Inr df"
    using df(1) by (cases xs) (simp_all add: py_truthy_def py_iter_def)
  have m: "filter (\<lambda>field. \<not> dict_has_key df (PStr field))
             (required_fields LOGON_SUCCESS_template) = absent_fields xs"
    by (simp add: absent_fields_def dict_has_key_PStr l last_named_ex [symmetric])
  have k: "''Data'' \<in> fst ` set d" using assms(1) by (metis domI dom_map_of_conv_image_fst)
  have c: "py_contains (PDict d) ''Data'' = Inr True" using k by (simp add: py_contains_def)
  have g: "py_getitem (PDict d) ''Data'' = Inr (PList xs)"
    using assms(1) by (simp add: py_getitem_def)
  have "validate_security_event (PInt 4624) (PDict d) =
             (if absent_fields xs \<noteq> []
              then Inl (ValueError (Message
                     (''Missing required fields for Security Event 4624: '' @
                      py_repr (PList (map PStr (absent_fields xs))))))
              else check_field_types LOGON_SUCCESS_template df)"
    unfolding validate_security_event_def SecurityEventID_of_4624 c g
    by (simp add: f m Let_def py_str_4624 del: py_repr.simps)
  with df(2,3) l o show ?thesis by blast
qed

text \<open>
  C3, as the code has it. The record has the cataloged Id 4624 and its \<open>Data\<close> is a list
  of mappings, each with a hashable \<open>Name\<close>. When some required field name is absent from
  the list, validation fails with an error that lists exactly the absent required names.
  Otherwise the entries are looked up by name, a later entry replacing an earlier one of
  the same name, and the names are visited in lookup order, each at the place of its
  first entry: validation fails at the first name whose last entry has a \<open>Type\<close> that
  differs from the declared one, with an error naming that field, its expected type and
  that actual \<open>Type\<close>, and it passes when there is no such name, that is, if and only if
  for every name with a declared type the last entry of that name has exactly the
  declared \<open>Type\<close>.
\<close>

theorem security_template_validation:
  assumes "map_of d ''Data'' = Some (PList xs)" and "list_all has_hashable_name xs"
  shows "(absent_fields xs \<noteq> [] \<longrightarrow>
            validate_security_event (PInt 4624) (PDict d) =
              Inl (ValueError (Message
                (''Missing required fields for Security Event 4624: '' @
                 py_repr (PList (map PStr (absent_fields xs))))))) \<and>
         (absent_fields xs = [] \<longrightarrow>
            validate_security_event (PInt 4624) (PDict d) =
              (case find (type_mismatch xs) (text_names xs) of
                 None \<Rightarrow> Inr ()
               | Some n \<Rightarrow> Inl (ValueError (Message
                   (''Invalid type for field '' @ n @ ''. Expected '' @ declared_type n @
                    '', got '' @ py_str (actual_type xs n))))) \<and>
            (validate_security_event (PInt 4624) (PDict d) = Inr () \<longleftrightarrow>
               (\<forall>n t item. map_of (field_types LOGON_SUCCESS_template) n = Some t \<and>
                    last_named n xs = Some item \<longrightarrow>
                  py_get item ''Type'' PNone = Inr (PStr t))) \<and>
            (\<forall>e. validate_security_event (PInt 4624) (PDict d) = Inl e \<longrightarrow>
               (\<exists>n t item actual. map_of (field_types LOGON_SUCCESS_template) n = Some t \<and>
                    last_named n xs = Some item \<and>
                    py_get item ''Type'' PNone = Inr actual \<and> actual \<noteq> PStr t \<and>
                    e = ValueError (Message
                          (''Invalid type for field '' @ n @ ''. Expected '' @ t @ '', got '' @
                           py_str actual)))))"
proof -
  from validate_security_event_logon [OF assms] obtain df where
    dist: "distinct (map fst df)" and dict: "\<forall>v \<in> snd ` set df. is_dict v" and
    l: "\<And>n. map_of df (PStr n) = last_named n xs" and o: "text_keys df = text_names xs" and
    r: "validate_security_event (PInt 4624) (PDict d) =
             (if absent_fields xs \<noteq> []
              then Inl (ValueError (Message
                     (''Missing required fields for Security Event 4624: '' @
                      py_repr (PList (map PStr (absent_fields xs))))))
              else check_field_types LOGON_SUCCESS_template df)"
    by blast
  have mem: "(PStr n, item) \<in> set df \<longleftrightarrow> last_named n xs = Some item" for n item
    using map_of_eq_Some_iff [OF dist, of "PStr n" item] l [of n] by simp
  have first: "check_field_types LOGON_SUCCESS_template df =
     (case find (type_mismatch xs) (text_names xs) of
        None \<Rightarrow> Inr ()
      | Some n \<Rightarrow> Inl (ValueError (Message
          (''Invalid type for field '' @ n @ ''. Expected '' @ declared_type n @ '', got '' @
           py_str (actual_type xs n)))))"
    using check_field_types_first_mismatch [OF dict, of xs] mem unfolding o by blast
  show ?thesis
  proof (intro conjI impI allI)
    assume "absent_fields xs \<noteq> []"
    then show "validate_security_event (PInt 4624) (PDict d) =
              Inl (ValueError (Message
                (''Missing required fields for Security Event 4624: '' @
                 py_repr (PList (map PStr (absent_fields xs))))))"
      using r by simp
  next
    assume a: "absent_fields xs = []"
    show "validate_security_event (PInt 4624) (PDict d) =
              (case find (type_mismatch xs) (text_names xs) of
                 None \<Rightarrow> Inr ()
               | Some n \<Rightarrow> Inl (ValueError (Message
                   (''Invalid type for field '' @ n @ ''. Expected '' @ declared_type n @
                    '', got '' @ py_str (actual_type xs n)))))"
      using a r first by simp
  next
    assume a: "absent_fields xs = []"
    show "validate_security_event (PInt 4624) (PDict d) = Inr () \<longleftrightarrow>
               (\<forall>n t item. map_of (field_types LOGON_SUCCESS_template) n = Some t \<and>
                    last_named n xs = Some item \<longrightarrow>
                  py_get item ''Type'' PNone = Inr (PStr t))"
      using a r check_field_types_pass [OF dict, of LOGON_SUCCESS_template]
      by (simp add: mem) blast
  next
    fix e
    assume a: "absent_fields xs = []"
      and "validate_security_event (PInt 4624) (PDict d) = Inl e"
    then have "check_field_types LOGON_SUCCESS_template df = Inl e" using r by simp
    from check_field_types_fail [OF dict this]
    show "\<exists>n t item actual. map_of (field_types LOGON_SUCCESS_template) n = Some t \<and>
                    last_named n xs = Some item \<and>
                    py_get item ''Type'' PNone = Inr actual \<and> actual \<noteq> PStr t \<and>
                    e = ValueError (Message
                          (''Invalid type for field '' @ n @ ''. Expected '' @ t @ '', got '' @
                           py_str actual))"
      by (simp add: mem) blast
  qed
qed

lemma logon_entries_named: "list_all has_hashable_name logon_entries"
  by code_simp

lemma logon_entries_complete: "absent_fields logon_entries = []"
  by code_simp

lemma logon_entries_typed:
  "list_all (\<lambda>nt. case last_named (fst nt) logon_entries of
       Some item \<Rightarrow> py_get item ''Type'' PNone = Inr (PStr (snd nt))
     | None \<Rightarrow> True) (field_types LOGON_SUCCESS_template)"
  by code_simp

lemma logon_entries_tl_named: "list_all has_hashable_name (tl logon_entries)"
  by code_simp

lemma logon_entries_tl_absent: "absent_fields (tl logon_entries) = [''SubjectUserSid'']"
  by code_simp

lemma repr_missing_sid: "py_repr (PList [PStr ''SubjectUserSid'']) = ''['SubjectUserSid']''"
  by code_simp

lemma logon_entries_retyped_named:
  "list_all has_hashable_name (logon_entries @ [logon_entry ''LogonType'' ''win:HexInt64'' ''2''])"
  by code_simp

lemma logon_entries_retyped_complete:
  "absent_fields (logon_entries @ [logon_entry ''LogonType'' ''win:HexInt64'' ''2'']) = []"
  by code_simp

lemma logon_entries_retyped_last:
  "last_named ''LogonType'' (logon_entries @ [logon_entry ''LogonType'' ''win:HexInt64'' ''2'']) =
     Some (logon_entry ''LogonType'' ''win:HexInt64'' ''2'') \<and>
   map_of (field_types LOGON_SUCCESS_template) ''LogonType'' = Some ''win:UInt32'' \<and>
   py_get (logon_entry ''LogonType'' ''win:HexInt64'' ''2'') ''Type'' PNone =
     Inr (PStr ''win:HexInt64'')"
  by code_simp

lemma two_mismatches_named:
  "list_all has_hashable_name
     (logon_entry ''SubjectUserSid'' ''win:UnicodeString'' ''func_sid'' #
      butlast (tl logon_entries) @ [logon_entry ''ElevatedToken'' ''win:UInt32'' ''Yes''])"
  by code_simp

lemma two_mismatches_complete:
  "absent_fields
     (logon_entry ''SubjectUserSid'' ''win:UnicodeString'' ''func_sid'' #
      butlast (tl logon_entries) @ [logon_entry ''ElevatedToken'' ''win:UInt32'' ''Yes'']) = []"
  by code_simp

lemma two_mismatches_first:
  "find (type_mismatch
       (logon_entry ''SubjectUserSid'' ''win:UnicodeString'' ''func_sid'' #
        butlast (tl logon_entries) @ [logon_entry ''ElevatedToken'' ''win:UInt32'' ''Yes'']))
     (text_names
       (logon_entry ''SubjectUserSid'' ''win:UnicodeString'' ''func_sid'' #
        butlast (tl logon_entries) @ [logon_entry ''ElevatedToken'' ''win:UInt32'' ''Yes''])) =
   Some ''SubjectUserSid'' \<and>
   type_mismatch
     (logon_entry ''SubjectUserSid'' ''win:UnicodeString'' ''func_sid'' #
      butlast (tl logon_entries) @ [logon_entry ''ElevatedToken'' ''win:UInt32'' ''Yes''])
     ''ElevatedToken'' \<and>
   declared_type ''SubjectUserSid'' = ''win:SID'' \<and>
   py_str (actual_type
       (logon_entry ''SubjectUserSid'' ''win:UnicodeString'' ''func_sid'' #
        butlast (tl logon_entries) @ [logon_entry ''ElevatedToken'' ''win:UInt32'' ''Yes''])
       ''SubjectUserSid'') = ''win:UnicodeString''"
  by code_simp

theorem security_template_validation_witness:
  "validate_security_event (PInt 4624) (PDict [(''Data'', PList (tl logon_entries))]) =
     Inl (ValueError (Message
       ''Missing required fields for Security Event 4624: ['SubjectUserSid']'')) \<and>
   validate_security_event (PInt 4624) (PDict [(''Data'', PList logon_entries)]) = Inr () \<and>
   validate_security_event (PInt 4624)
     (PDict [(''Data'', PList (logon_entries @ [logon_entry ''LogonType'' ''win:HexInt64'' ''2'']))]) \<noteq>
     Inr () \<and>
   validate_security_event (PInt 4624)
     (PDict [(''Data'', PList
        (logon_entry ''SubjectUserSid'' ''win:UnicodeString'' ''func_sid'' #
         butlast (tl logon_entries) @ [logon_entry ''ElevatedToken'' ''win:UInt32'' ''Yes'']))]) =
     Inl (ValueError (Message
       ''Invalid type for field SubjectUserSid. Expected win:SID, got win:UnicodeString''))"
proof (intro conjI)
  have h: "map_of [(''Data'', PList xs)] ''Data'' = Some (PList xs)" for xs
    by simp
  from security_template_validation [OF h logon_entries_tl_named]
  show "validate_security_event (PInt 4624) (PDict [(''Data'', PList (tl logon_entries))]) =
     Inl (ValueError (Message
       ''Missing required fields for Security Event 4624: ['SubjectUserSid']''))"
    by (simp add: logon_entries_tl_absent repr_missing_sid del: py_repr.simps)
  have "py_get item ''Type'' PNone = Inr (PStr t)"
    if "map_of (field_types LOGON_SUCCESS_template) n = Some t"
      and "last_named n logon_entries = Some item" for n t item
    using logon_entries_typed map_of_SomeD [OF that(1)] that(2)
    unfolding list_all_iff by fastforce
  with security_template_validation [OF h logon_entries_named, THEN conjunct2, THEN mp,
      OF logon_entries_complete, THEN conjunct2, THEN conjunct1]
  show "validate_security_event (PInt 4624) (PDict [(''Data'', PList logon_entries)]) = Inr ()"
    by blast
  from security_template_validation [OF h logon_entries_retyped_named, THEN conjunct2, THEN mp,
      OF logon_entries_retyped_complete, THEN conjunct2, THEN conjunct1]
    logon_entries_retyped_last
  show "validate_security_event (PInt 4624)
     (PDict [(''Data'', PList (logon_entries @ [logon_entry ''LogonType'' ''win:HexInt64'' ''2'']))]) \<noteq>
     Inr ()"
    by auto
  from security_template_validation [OF h two_mismatches_named, THEN conjunct2, THEN mp,
      OF two_mismatches_complete, THEN conjunct1] two_mismatches_first
  show "validate_security_event (PInt 4624)
     (PDict [(''Data'', PList
        (logon_entry ''SubjectUserSid'' ''win:UnicodeString'' ''func_sid'' #
         butlast (tl logon_entries) @ [logon_entry ''ElevatedToken'' ''win:UInt32'' ''Yes'']))]) =
     Inl (ValueError (Message
       ''Invalid type for field SubjectUserSid. Expected win:SID, got win:UnicodeString''))"
    by simp
qed

text \<open>
  An entry named \<open>LogonType\<close> whose \<open>Type\<close> differs from the declared one, and validation
  passes: a later entry of the same name replaces it in the lookup.
\<close>

theorem earlier_duplicate_entry_type_not_checked:
  "map_of (field_types LOGON_SUCCESS_template) ''LogonType'' = Some ''win:UInt32'' \<and>
   validate_security_event (PInt 4624)
     (PDict [(''Data'', PList (logon_entry ''LogonType'' ''win:HexInt64'' ''2'' # logon_entries))]) =
   Inr ()"
  by code_simp

section \<open>Properties of the serializer: literal and resolved attributes\<close>










section \<open>Properties of the serializer: resolved configurations\<close>

text \<open>
  On a resolved value the value provider draws nothing, and its result is the same in every
  state of the world; so are the results of the loops of the serializer.
\<close>

lemma get_random_value_settled:
  assumes "resolved v"
  shows "\<exists>R. \<forall>w. get_random_value v w = (R, w)"
proof (cases v)
  case (PStr s)
  with assms have n: "\<not> is_generator_spec s" by simp
  show ?thesis
  proof (cases "py_split s")
    case Nil
    then show ?thesis by (simp add: PStr get_random_value_def exec_function_str_def)
  next
    case (Cons t args)
    with n have "\<not> py_startswith t ''func_''" by (simp add: is_generator_spec_def)
    then have g: "get_function t = Inr (Lambda t)" by (simp add: get_function_def)
    show ?thesis
      by (cases args)
        (simp_all add: PStr get_random_value_def exec_function_str_def Cons g call_function_def)
  qed
qed (simp_all add: get_random_value_def)

lemma system_attrs_settled:
  "resolved_items d \<Longrightarrow> \<exists>R. \<forall>w. system_attrs d attrs body w = (R, w)"
proof (induction d arbitrary: attrs body)
  case Nil
  then show ?case by simp
next
  case (Cons kv d)
  then have "resolved (snd kv)" and rd: "resolved_items d" by simp_all
  from get_random_value_settled [OF this(1)] obtain R0 where
    R0: "\<And>w. get_random_value (snd kv) w = (R0, w)" by blast
  show ?case
  proof (cases R0)
    case (Inl e)
    then show ?thesis by (simp add: R0)
  next
    case (Inr r)
    from Cons.IH [OF rd] obtain R1 R2 where
      "\<And>w. system_attrs d attrs r w = (R1, w)"
      "\<And>w. system_attrs d (attrs @ [attribute (fst kv) r]) body w = (R2, w)"
      by blast
    then show ?thesis by (cases "fst kv = ''_text''") (simp_all add: R0 Inr)
  qed
qed

lemma data_attrs_settled:
  "resolved_items d \<Longrightarrow> \<exists>R. \<forall>w. data_attrs d attrs body w = (R, w)"
proof (induction d arbitrary: attrs body)
  case Nil
  then show ?case by simp
next
  case (Cons kv d)
  then have "resolved (snd kv)" and rd: "resolved_items d" by simp_all
  from get_random_value_settled [OF this(1)] obtain R0 where
    R0: "\<And>w. get_random_value (snd kv) w = (R0, w)" by blast
  show ?case
  proof (cases "fst kv = ''_text''")
    case True
    show ?thesis
    proof (cases R0)
      case (Inl e)
      then show ?thesis by (simp add: R0 True)
    next
      case (Inr r)
      from Cons.IH [OF rd] obtain R1 where "\<And>w. data_attrs d attrs r w = (R1, w)" by blast
      then show ?thesis by (simp add: R0 Inr True)
    qed
  next
    case False
    from Cons.IH [OF rd] obtain R2 where
      "\<And>w. data_attrs d (attrs @ [attribute (fst kv) (py_str (snd kv))]) body w = (R2, w)"
      by blast
    then show ?thesis by (simp add: False)
  qed
qed

lemma system_lines_scalar:
  "\<not> is_dict (snd kv) \<Longrightarrow>
   system_lines (kv # rest) xml w =
     (case get_random_value (snd kv) w of
        (Inl e, w') \<Rightarrow> (Inl e, w')
      | (Inr r, w') \<Rightarrow> system_lines rest (xml @ [element_line (fst kv) [] r]) w')"
  by (cases "snd kv") (simp_all add: is_dict_def)

lemma system_lines_settled:
  "resolved_items items \<Longrightarrow> \<exists>R. \<forall>w. system_lines items xml w = (R, w)"
proof (induction items arbitrary: xml)
  case Nil
  then show ?case by simp
next
  case (Cons kv items)
  then have rv: "resolved (snd kv)" and ri: "resolved_items items" by simp_all
  show ?case
  proof (cases "is_dict (snd kv)")
    case True
    then obtain d where PDict: "snd kv = PDict d"
      by (cases "snd kv") (simp_all add: is_dict_def)
    with rv have "resolved_items d" by simp
    from system_attrs_settled [OF this] obtain R0 where
      R0: "\<And>w. system_attrs d [] [] w = (R0, w)" by blast
    show ?thesis
    proof (cases R0)
      case (Inl e)
      then show ?thesis by (simp add: PDict R0)
    next
      case (Inr at)
      obtain attrs body where at: "at = (attrs, body)" by (cases at)
      from Cons.IH [OF ri] obtain R1 where
        "\<And>w. system_lines items (xml @ [element_line (fst kv) attrs body]) w = (R1, w)"
        by blast
      then show ?thesis by (simp add: PDict R0 Inr at)
    qed
  next
    case False
    from get_random_value_settled [OF rv] obtain R0 where
      R0: "\<And>w. get_random_value (snd kv) w = (R0, w)" by blast
    show ?thesis
    proof (cases R0)
      case (Inl e)
      then show ?thesis unfolding system_lines_scalar [OF False] by (simp add: R0)
    next
      case (Inr r)
      from Cons.IH [OF ri] obtain R1 where
        "\<And>w. system_lines items (xml @ [element_line (fst kv) [] r]) w = (R1, w)" by blast
      then show ?thesis unfolding system_lines_scalar [OF False] by (simp add: R0 Inr)
    qed
  qed
qed

lemma data_lines_settled:
  "resolved_list xs \<Longrightarrow> \<exists>R. \<forall>w. data_lines xs xml w = (R, w)"
proof (induction xs arbitrary: xml)
  case Nil
  then show ?case by simp
next
  case (Cons x xs)
  then have rx: "resolved x" and rxs: "resolved_list xs" by simp_all
  show ?case
  proof (cases x)
    case (PDict d)
    with rx have "resolved_items d" by simp
    from data_attrs_settled [OF this] obtain R0 where
      R0: "\<And>w. data_attrs d [] [] w = (R0, w)" by blast
    show ?thesis
    proof (cases R0)
      case (Inl e)
      then show ?thesis by (simp add: PDict R0 py_items_def)
    next
      case (Inr at)
      obtain attrs body where at: "at = (attrs, body)" by (cases at)
      from Cons.IH [OF rxs] obtain R1 where
        "\<And>w. data_lines xs (xml @ [element_line ''Data'' attrs body]) w = (R1, w)" by blast
      then show ?thesis by (simp add: PDict R0 Inr at py_items_def)
    qed
  qed (simp_all add: py_items_def)
qed

lemma data_lines_texts:
  "list_all is_str xs \<Longrightarrow>
   data_lines xs xml w = (if xs = [] then (Inr xml, w) else (Inl AttributeError, w))"
  by (cases xs) (auto simp: is_str_def py_items_def split: pyval.splits)

lemma resolved_lookup: "resolved_items d \<Longrightarrow> map_of d k = Some v \<Longrightarrow> resolved v"
  by (induction d) (auto split: if_splits)

lemma resolved_getitem: "resolved x \<Longrightarrow> py_getitem x k = Inr v \<Longrightarrow> resolved v"
  by (cases x) (auto simp: py_getitem_def split: option.splits dest: resolved_lookup)

lemma py_iter_cases:
  "py_iter v = Inr xs \<Longrightarrow> resolved v \<Longrightarrow> resolved_list xs \<or> list_all is_str xs"
  by (cases v) (auto simp: py_iter_def is_str_def list_all_iff)

lemma entries_settled:
  assumes "resolved_list xs \<or> list_all is_str xs"
  shows "\<exists>R. \<forall>w. data_lines xs xml w = (R, w)"
proof (cases "resolved_list xs")
  case True
  then show ?thesis by (rule data_lines_settled)
next
  case False
  with assms have "list_all is_str xs" by simp
  then show ?thesis by (cases "xs = []") (simp_all add: data_lines_texts)
qed

lemma event_data_section_settled:
  assumes "resolved event"
  shows "\<exists>R. \<forall>w. event_data_section event xml w = (R, w)"
proof (cases "py_contains event ''EventData''")
  case (Inl e)
  then show ?thesis by (simp add: event_data_section_def)
next
  case (Inr has)
  show ?thesis
  proof (cases has)
    case False
    with Inr show ?thesis by (simp add: event_data_section_def)
  next
    case True
    show ?thesis
    proof (cases "and_then (py_getitem event ''EventData'') (\<lambda>event_data.
                      and_then (py_getitem event_data ''Data'') py_iter)")
      case (Inl e)
      with Inr True show ?thesis by (simp add: event_data_section_def)
    next
      case r: (Inr entries)
      then obtain ed dv where "py_getitem event ''EventData'' = Inr ed"
        "py_getitem ed ''Data'' = Inr dv" "py_iter dv = Inr entries"
        by (auto simp: and_then_Inr)
      with assms have "resolved_list entries \<or> list_all is_str entries"
        by (meson py_iter_cases resolved_getitem)
      from entries_settled [OF this] obtain R1 where
        "\<And>w. data_lines entries (xml @ [''  <EventData>'']) w = (R1, w)" by blast
      with Inr True r show ?thesis
        by (cases R1) (simp_all add: event_data_section_def)
    qed
  qed
qed

lemma get_windows_event_log_settled:
  assumes "resolved config"
  shows "\<exists>R. \<forall>w. get_windows_event_log config w = (R, w)"
proof (cases "validate_windows_event_config config")
  case (Inl e)
  then show ?thesis by (simp add: get_windows_event_log_def)
next
  case v: (Inr u)
  show ?thesis
  proof (cases "and_then (py_getitem config ''Event'') (\<lambda>event.
                  and_then (py_getitem event ''System'') py_items)")
    case (Inl e)
    with v show ?thesis by (simp add: get_windows_event_log_def)
  next
    case s: (Inr system)
    then obtain event sv where ev: "py_getitem config ''Event'' = Inr event"
      and sv: "py_getitem event ''System'' = Inr sv" and it: "py_items sv = Inr system"
      by (auto simp: and_then_Inr)
    have re: "resolved event" using assms ev by (rule resolved_getitem)
    then have "resolved sv" using sv by (rule resolved_getitem)
    with it have "resolved_items system"
      by (cases sv) (simp_all add: py_items_def)
    note re and this
    from system_lines_settled [OF this(2)] obtain R0 where
      R0: "\<And>w. system_lines system [xml_declaration, event_open, ''  <System>''] w = (R0, w)"
      by blast
    show ?thesis
    proof (cases R0)
      case (Inl e)
      with v s R0 show ?thesis by (simp add: get_windows_event_log_def)
    next
      case (Inr xml)
      from event_data_section_settled [OF \<open>resolved event\<close>] obtain R1 where
        "\<And>w. event_data_section event (xml @ [''  </System>'']) w = (R1, w)" by blast
      with v s R0 Inr ev show ?thesis
        by (cases R1) (simp_all add: get_windows_event_log_def)
    qed
  qed
qed

text \<open>
  On resolved items the loops of the serializer add one line for each item, in order.
\<close>

lemma value_settled:
  assumes "resolved v" and "get_random_value v w = (Inr r, w')"
  shows "w' = w \<and> r = value_alone w0 v"
proof -
  from get_random_value_settled [OF assms(1)] obtain R where
    R: "\<And>w. get_random_value v w = (R, w)" by blast
  with assms(2) have "R = Inr r" "w' = w" by simp_all
  then show ?thesis by (simp add: value_alone_def R)
qed

lemma system_attrs_ordered:
  "resolved_items d \<Longrightarrow> system_attrs d attrs0 body0 w = (Inr (attrs, body), w') \<Longrightarrow>
   w' = w \<and>
   attrs = attrs0 @ map (\<lambda>a. attribute (fst a) (value_alone w0 (snd a)))
                      (filter (\<lambda>a. fst a \<noteq> ''_text'') d) \<and>
   body = (case filter (\<lambda>a. fst a = ''_text'') d of
             [] \<Rightarrow> body0
           | ys \<Rightarrow> value_alone w0 (snd (last ys)))"
proof (induction d arbitrary: attrs0 body0 w)
  case Nil
  then show ?case by simp
next
  case (Cons kv d)
  from Cons.prems(1) have rv: "resolved (snd kv)" and rd: "resolved_items d" by simp_all
  from Cons.prems(2) obtain r w1 where g: "get_random_value (snd kv) w = (Inr r, w1)"
    and rest: "(if fst kv = ''_text'' then system_attrs d attrs0 r w1
                else system_attrs d (attrs0 @ [attribute (fst kv) r]) body0 w1) =
               (Inr (attrs, body), w')"
    by (auto split: prod.splits sum.splits)
  from value_settled [OF rv g, of w0] have w1: "w1 = w" and r: "r = value_alone w0 (snd kv)"
    by simp_all
  show ?case
  proof (cases "fst kv = ''_text''")
    case True
    with rest have "system_attrs d attrs0 r w = (Inr (attrs, body), w')" by (simp add: w1)
    from Cons.IH [OF rd this] True r show ?thesis
      by (cases "filter (\<lambda>a. fst a = ''_text'') d") simp_all
  next
    case False
    with rest have "system_attrs d (attrs0 @ [attribute (fst kv) r]) body0 w =
                    (Inr (attrs, body), w')" by (simp add: w1)
    from Cons.IH [OF rd this] False r show ?thesis by simp
  qed
qed

lemma data_attrs_ordered:
  "resolved_items d \<Longrightarrow> data_attrs d attrs0 body0 w = (Inr (attrs, body), w') \<Longrightarrow>
   w' = w \<and>
   attrs = attrs0 @ map (\<lambda>a. attribute (fst a) (py_str (snd a)))
                      (filter (\<lambda>a. fst a \<noteq> ''_text'') d) \<and>
   body = (case filter (\<lambda>a. fst a = ''_text'') d of
             [] \<Rightarrow> body0
           | ys \<Rightarrow> value_alone w0 (snd (last ys)))"
proof (induction d arbitrary: attrs0 body0 w)
  case Nil
  then show ?case by simp
next
  case (Cons kv d)
  from Cons.prems(1) have rv: "resolved (snd kv)" and rd: "resolved_items d" by simp_all
  show ?case
  proof (cases "fst kv = ''_text''")
    case True
    with Cons.prems(2) obtain r w1 where g: "get_random_value (snd kv) w = (Inr r, w1)"
      and rest: "data_attrs d attrs0 r w1 = (Inr (attrs, body), w')"
      by (auto split: prod.splits sum.splits)
    from value_settled [OF rv g, of w0] have w1: "w1 = w" and r: "r = value_alone w0 (snd kv)"
      by simp_all
    from Cons.IH [OF rd rest [unfolded w1]] True r show ?thesis
      by (cases "filter (\<lambda>a. fst a = ''_text'') d") simp_all
  next
    case False
    with Cons.prems(2) have
      "data_attrs d (attrs0 @ [attribute (fst kv) (py_str (snd kv))]) body0 w =
         (Inr (attrs, body), w')" by simp
    from Cons.IH [OF rd this] False show ?thesis by simp
  qed
qed

lemma system_lines_ordered:
  "resolved_items items \<Longrightarrow> system_lines items xml w = (Inr out, w') \<Longrightarrow>
   w' = w \<and> out = xml @ map (rendered_field w0) items"
proof (induction items arbitrary: xml w)
  case Nil
  then show ?case by simp
next
  case (Cons kv items)
  from Cons.prems(1) have rv: "resolved (snd kv)" and ri: "resolved_items items" by simp_all
  show ?case
  proof (cases "is_dict (snd kv)")
    case True
    then obtain d where PDict: "snd kv = PDict d"
      by (cases "snd kv") (simp_all add: is_dict_def)
    with rv have rd: "resolved_items d" by simp
    from Cons.prems(2) obtain attrs body w1 where
      a: "system_attrs d [] [] w = (Inr (attrs, body), w1)" and
      rest: "system_lines items (xml @ [element_line (fst kv) attrs body]) w1 = (Inr out, w')"
      by (auto simp: PDict split: prod.splits sum.splits)
    from system_attrs_ordered [OF rd a, of w0] have
      "w1 = w" "element_line (fst kv) attrs body = rendered_field w0 kv"
      by (simp_all add: rendered_field_def PDict text_alone_def split: list.splits)
    with Cons.IH [OF ri rest] show ?thesis by simp
  next
    case False
    from Cons.prems(2) obtain r w1 where g: "get_random_value (snd kv) w = (Inr r, w1)"
      and rest: "system_lines items (xml @ [element_line (fst kv) [] r]) w1 = (Inr out, w')"
      unfolding system_lines_scalar [OF False] by (auto split: prod.splits sum.splits)
    from value_settled [OF rv g, of w0] False have
      "w1 = w" "element_line (fst kv) [] r = rendered_field w0 kv"
      by (cases "snd kv"; simp add: rendered_field_def is_dict_def)+
    with Cons.IH [OF ri rest] show ?thesis by simp
  qed
qed

lemma data_lines_ordered:
  "resolved_list xs \<Longrightarrow> data_lines xs xml w = (Inr out, w') \<Longrightarrow>
   w' = w \<and> out = xml @ map (rendered_entry w0) xs"
proof (induction xs arbitrary: xml w)
  case Nil
  then show ?case by simp
next
  case (Cons x xs)
  from Cons.prems(1) have rx: "resolved x" and rxs: "resolved_list xs" by simp_all
  from Cons.prems(2) obtain d where PDict: "x = PDict d"
    by (cases x) (simp_all add: py_items_def)
  with rx have rd: "resolved_items d" by simp
  from Cons.prems(2) obtain attrs body w1 where
    a: "data_attrs d [] [] w = (Inr (attrs, body), w1)" and
    rest: "data_lines xs (xml @ [element_line ''Data'' attrs body]) w1 = (Inr out, w')"
    by (auto simp: PDict py_items_def split: prod.splits sum.splits)
  from data_attrs_ordered [OF rd a, of w0] have
    "w1 = w" "element_line ''Data'' attrs body = rendered_entry w0 x"
    by (simp_all add: rendered_entry_def PDict text_alone_def split: list.splits)
  with Cons.IH [OF rxs rest] show ?case by simp
qed


lemma py_contains_False: "py_contains x k = Inr False \<Longrightarrow> \<exists>e. py_getitem x k = Inl e"
  by (cases x) (auto simp: py_contains_def py_getitem_def map_of_eq_None_iff split: option.splits)

lemma entries_ordered:
  assumes "resolved_list xs \<or> list_all is_str xs" and "data_lines xs xml w = (Inr out, w')"
  shows "out = xml @ map (rendered_entry w0) xs"
proof (cases "resolved_list xs")
  case True
  from data_lines_ordered [OF True assms(2)] show ?thesis by simp
next
  case False
  with assms(1) have "list_all is_str xs" by simp
  from data_lines_texts [OF this, of xml w] assms(2) show ?thesis
    by (cases "xs = []") simp_all
qed

lemma event_data_section_ordered:
  assumes "resolved event" and "event_data_section event xml w = (Inr out, w')"
  shows "out = xml @
     (case and_then (py_getitem event ''EventData'') (\<lambda>event_data.
             and_then (py_getitem event_data ''Data'') py_iter) of
        Inr entries \<Rightarrow> ''  <EventData>'' # map (rendered_entry w0) entries @ [''  </EventData>'']
      | Inl _ \<Rightarrow> [])"
proof -
  from assms(2) obtain has where c: "py_contains event ''EventData'' = Inr has"
    by (cases "py_contains event ''EventData''") (simp_all add: event_data_section_def)
  show ?thesis
  proof (cases has)
    case False
    with c have "py_contains event ''EventData'' = Inr False" by simp
    from py_contains_False [OF this] obtain e where "py_getitem event ''EventData'' = Inl e"
      by blast
    with assms(2) c False show ?thesis by (simp add: event_data_section_def)
  next
    case True
    from assms(2) c True obtain entries where
      l: "and_then (py_getitem event ''EventData'') (\<lambda>event_data.
             and_then (py_getitem event_data ''Data'') py_iter) = Inr entries"
      by (cases "and_then (py_getitem event ''EventData'') (\<lambda>event_data.
             and_then (py_getitem event_data ''Data'') py_iter)")
        (simp_all add: event_data_section_def)
    then obtain ed dv where "py_getitem event ''EventData'' = Inr ed"
      "py_getitem ed ''Data'' = Inr dv" "py_iter dv = Inr entries"
      by (auto simp: and_then_Inr)
    with assms(1) have k: "resolved_list entries \<or> list_all is_str entries"
      by (meson py_iter_cases resolved_getitem)
    from assms(2) c True l obtain o1 where
      d: "data_lines entries (xml @ [''  <EventData>'']) w = (Inr o1, w')"
      and o: "out = o1 @ [''  </EventData>'']"
      by (auto simp: event_data_section_def split: prod.splits sum.splits)
    from entries_ordered [OF k d, of w0] o show ?thesis by (simp add: l)
  qed
qed

text \<open>
  C9. For every configuration in which no value is a generator specification, the result
  of the serializer does not depend on the state of the random source and the clock: two
  calls on that configuration give the same result, byte for byte. When the result is a
  text, it is the ordered rendering of the configuration: the fixed header lines, one line
  for each \<open>System\<close> field in the order of the mapping, with its attributes in the order
  of the field's own mapping, and one line for each \<open>Data\<close> entry in the order of the list,
  with its attributes in the order of the entry.
\<close>

theorem resolved_serialization_deterministic:
  assumes "resolved config"
  shows "fst (get_windows_event_log config w1) = fst (get_windows_event_log config w2) \<and>
         (\<forall>body. fst (get_windows_event_log config w1) = Inr body \<longrightarrow>
            body = ordered_rendering w2 config)"
proof (intro conjI allI impI)
  from get_windows_event_log_settled [OF assms]
  show "fst (get_windows_event_log config w1) = fst (get_windows_event_log config w2)"
    by auto
next
  fix body
  assume "fst (get_windows_event_log config w1) = Inr body"
  then obtain w' where g: "get_windows_event_log config w1 = (Inr body, w')"
    by (cases "get_windows_event_log config w1") simp
  from g obtain u where v: "validate_windows_event_config config = Inr u"
    by (cases "validate_windows_event_config config")
      (simp_all add: get_windows_event_log_def)
  from g v obtain system where
    s: "and_then (py_getitem config ''Event'') (\<lambda>event.
          and_then (py_getitem event ''System'') py_items) = Inr system"
    by (cases "and_then (py_getitem config ''Event'') (\<lambda>event.
          and_then (py_getitem event ''System'') py_items)")
      (simp_all add: get_windows_event_log_def)
  then obtain event sv where ev: "py_getitem config ''Event'' = Inr event"
    and sv: "py_getitem event ''System'' = Inr sv" and it: "py_items sv = Inr system"
    by (auto simp: and_then_Inr)
  have re: "resolved event" using assms ev by (rule resolved_getitem)
  then have "resolved sv" using sv by (rule resolved_getitem)
  with it have rs: "resolved_items system"
    by (cases sv) (simp_all add: py_items_def)
  from g v s ev obtain xml wa xml' where
    sl: "system_lines system [xml_declaration, event_open, ''  <System>''] w1 = (Inr xml, wa)"
    and es: "event_data_section event (xml @ [''  </System>'']) wa = (Inr xml', w')"
    and b: "body = py_join [newline] (xml' @ [''</Event>''])"
    by (auto simp: get_windows_event_log_def split: prod.splits sum.splits)
  from system_lines_ordered [OF rs sl, of w2] have
    x: "xml = [xml_declaration, event_open, ''  <System>''] @ map (rendered_field w2) system"
    by simp
  have sf: "system_fields config = system" by (simp add: system_fields_def s)
  have de: "data_entries config =
      (case and_then (py_getitem event ''EventData'') (\<lambda>event_data.
             and_then (py_getitem event_data ''Data'') py_iter) of
         Inr entries \<Rightarrow> Some entries | Inl _ \<Rightarrow> None)"
    by (simp add: data_entries_def ev)
  from event_data_section_ordered [OF re es, of w2] show "body = ordered_rendering w2 config"
    unfolding b ordered_rendering_def sf de x
    by (simp split: sum.splits)
qed

theorem resolved_serialization_deterministic_witness:
  "resolved settled_config \<and>
   succeeded (fst (get_windows_event_log settled_config sample_world)) \<and>
   fst (get_windows_event_log settled_config sample_world) =
     fst (get_windows_event_log settled_config (next_draw sample_world)) \<and>
   fst (get_windows_event_log settled_config sample_world) =
     Inr (ordered_rendering sample_world settled_config) \<and>
   map (rendered_field sample_world) (system_fields settled_config) =
     [''    <Provider Name=\"Microsoft-Windows-Security-Auditing\" Guid=\"{54849625-5478-4994-A5BA-3E3B0328C30D}\"></Provider>'',
      ''    <EventID Qualifiers=\"0\">4624</EventID>'',
      ''    <Version>0</Version>'',
      ''    <TimeCreated SystemTime=\"2024-02-20T10:00:00\"></TimeCreated>'',
      ''    <Channel>Security</Channel>'',
      ''    <Computer>TestComputer</Computer>'']"
proof -
  have r: "resolved settled_config" by code_simp
  have s: "succeeded (fst (get_windows_event_log settled_config sample_world))" by code_simp
  then obtain body where b: "fst (get_windows_event_log settled_config sample_world) = Inr body"
    by (cases "fst (get_windows_event_log settled_config sample_world)")
      (simp_all add: succeeded_def)
  have f: "map (rendered_field sample_world) (system_fields settled_config) =
     [''    <Provider Name=\"Microsoft-Windows-Security-Auditing\" Guid=\"{54849625-5478-4994-A5BA-3E3B0328C30D}\"></Provider>'',
      ''    <EventID Qualifiers=\"0\">4624</EventID>'',
      ''    <Version>0</Version>'',
      ''    <TimeCreated SystemTime=\"2024-02-20T10:00:00\"></TimeCreated>'',
      ''    <Channel>Security</Channel>'',
      ''    <Computer>TestComputer</Computer>'']"
    by code_simp
  from resolved_serialization_deterministic [OF r, of sample_world "next_draw sample_world"]
  have d: "fst (get_windows_event_log settled_config sample_world) =
     fst (get_windows_event_log settled_config (next_draw sample_world))"
    by (rule conjunct1)
  from resolved_serialization_deterministic [OF r, of sample_world sample_world] b
  have o: "fst (get_windows_event_log settled_config sample_world) =
     Inr (ordered_rendering sample_world settled_config)"
    by simp
  from r s d o f show ?thesis by (intro conjI)
qed

end
